theory Spec2Isabelle
  imports Complex_Main
begin

section \<open>The AAS agent of \<open>agent.py\<close>\<close>

text \<open>
  A shallow embedding of class \<open>AASAgent\<close>: the in-memory document (one shell, a dict of
  submodels, a dict of concept descriptions), its twelve handlers and the dispatcher
  \<open>execute_function\<close>.

  Conventions of the embedding.
  \<^item> Python values that reach a handler through the untyped \<open>value\<close> parameter are the
    JSON scalars: \<open>None\<close>, \<open>bool\<close>, \<open>int\<close>, \<open>float\<close>, \<open>str\<close>.
  \<^item> A \<open>str\<close> is a list of characters, a character being a code point below 256.
    \<open>lower\<close> acts on the ASCII letters and leaves other characters alone.
  \<^item> A \<open>dict\<close> is an association list in insertion order with distinct keys; assigning
    to a key that is present replaces the value where the key stands, assigning to a new
    key appends.
  \<^item> An exception is a value of type \<open>exn\<close>; a \<open>try\<close>/\<open>except Exception\<close> is a case
    distinction on a sum. The text of an exception is not modelled.
  \<^item> A returned message is a value of type \<open>reply\<close>, with one constructor for each
    \<open>return\<close> statement of the source, carrying the values the f-string interpolates.
  \<^item> What the source leaves to its libraries and to the system is a parameter, collected
    in the record \<open>env\<close>: rounding and printing of binary floating-point numbers, the
    limit of the interpreter on the digits \<open>int\<close> reads from a string, the checks the
    BaSyx constructors and setters perform on their arguments (they raise or accept),
    and whether a file can be opened for writing.
  \<^item> The JSON adapter is modelled from the specification: a document is a JSON value,
    written and read back by two functions of this theory.
  \<^item> Left out: the conversation history, which no handler reads or writes; the layout
    of the messages; the text of a JSON value; lists and dicts as values of a keyword
    dict; a file that does not hold JSON or cannot be opened for reading. An \<open>int\<close>
    that arrives in a keyword dict was read by \<open>json.loads\<close> under the digit limit, so
    \<open>str\<close> of it does not raise.
\<close>

subsection \<open>Python values and exceptions\<close>

datatype exn =
    TypeError | ValueError | OverflowError | KeyError | AttributeError | FileNotFoundError
  | OSError | LibraryError

datatype pyfloat = Finite rat | PosInf | NegInf | NaN

datatype pyval = PNone | PBool bool | PInt int | PFloat pyfloat | PStr string

text \<open>The value types of a property: the four of \<open>type_map\<close>.\<close>

datatype vtype = XsString | XsInt | XsFloat | XsBoolean

datatype asset_kind = INSTANCE | TYPE

subsection \<open>The document\<close>

record shell =
  aas_id :: string
  aas_id_short :: string
  aas_asset_kind :: asset_kind
  global_asset_id :: string
  submodel_refs :: "string list"

record property =
  id_short :: string
  value_type :: vtype
  prop_value :: pyval
  semantic_id :: "string option"

text \<open>The agent creates properties only; a loaded file may hold other elements, of which
  only the short name matters here.\<close>

datatype element = Property property | OtherElement string

record submodel =
  sm_id :: string
  sm_id_short :: string
  submodel_element :: "element list"

record concept =
  cd_id :: string
  cd_id_short :: string
  display_name :: "string option"
  description :: "string option"

record agent =
  aas :: "shell option"
  submodels :: "(string \<times> submodel) list"
  concept_descriptions :: "(string \<times> concept) list"

definition init_agent :: agent where
  "init_agent = \<lparr>aas = None, submodels = [], concept_descriptions = []\<rparr>"

datatype obj = OShell shell | OSubmodel submodel | OConcept concept

fun obj_id :: "obj \<Rightarrow> string" where
  "obj_id (OShell a) = aas_id a"
| "obj_id (OSubmodel s) = sm_id s"
| "obj_id (OConcept c) = cd_id c"

subsection \<open>The libraries\<close>

text \<open>One constructor for each library call of the handlers that may raise on its
  arguments.\<close>

datatype libcall =
    NewAssetInformation string
  | NewShell string string
  | NewSubmodel string string
  | NewModelReference string
  | NewProperty string vtype pyval
  | NewExternalReference string
  | AddElement "element list" string
  | SetValue vtype pyval
  | SetSemanticId "element list" string string
  | NewConcept string string
  | NewNameType string
  | NewTextType string
  | StoreAddAll "string list"

text \<open>\<open>max_str_digits\<close> is \<open>sys.get_int_max_str_digits()\<close>, 0 for no limit;
  \<open>open_for_writing\<close> tells whether \<open>open(path, 'w')\<close> raises; \<open>open_descriptor\<close> is what
  the reader finds when \<open>open\<close> is given a number, which it takes for a file
  descriptor.\<close>

datatype json =
    JNull | JBool bool | JInt int | JFloat pyfloat | JStr string | JArr "json list"
  | JObj "(string \<times> json) list"

record env =
  float_of_str :: "string \<Rightarrow> exn + pyfloat"
  float_of_int :: "int \<Rightarrow> exn + pyfloat"
  str_of_float :: "pyfloat \<Rightarrow> string"
  max_str_digits :: nat
  lib_check :: "libcall \<Rightarrow> exn option"
  open_for_writing :: "string \<Rightarrow> exn option"
  open_descriptor :: "int \<Rightarrow> exn + json"

subsection \<open>Built-ins: \<open>str\<close>, \<open>lower\<close>, \<open>int\<close>, \<open>float\<close>, \<open>endswith\<close>, dict assignment\<close>

definition lower_char :: "char \<Rightarrow> char" where
  "lower_char c =
     (case map_of (zip ''ABCDEFGHIJKLMNOPQRSTUVWXYZ'' ''abcdefghijklmnopqrstuvwxyz'') c of
        None \<Rightarrow> c | Some d \<Rightarrow> d)"

definition lower :: "string \<Rightarrow> string" where
  "lower s = map lower_char s"

definition digit_of :: "char \<Rightarrow> nat option" where
  "digit_of c = map_of (zip ''0123456789'' [0, 1, 2, 3, 4, 5, 6, 7, 8, 9]) c"

definition digit_chr :: "nat \<Rightarrow> char" where
  "digit_chr d = ''0123456789'' ! d"

function str_nat :: "nat \<Rightarrow> string" where
  "str_nat n = (if n < 10 then [digit_chr n] else str_nat (n div 10) @ [digit_chr (n mod 10)])"
  by pat_completeness auto
termination
  by (relation "measure id") auto

declare str_nat.simps [simp del]

definition str_int :: "int \<Rightarrow> string" where
  "str_int i = (if i < 0 then CHR ''-'' # str_nat (nat (- i)) else str_nat (nat i))"

fun py_str :: "env \<Rightarrow> pyval \<Rightarrow> string" where
  "py_str E PNone = ''None''"
| "py_str E (PBool b) = (if b then ''True'' else ''False'')"
| "py_str E (PInt i) = str_int i"
| "py_str E (PFloat x) = str_of_float E x"
| "py_str E (PStr s) = s"

text \<open>\<open>int(s)\<close> on a string, base 10: surrounding whitespace is dropped (of the code
  points below 256 these are tab to carriage return, space, U+0085 and U+00A0), one
  sign is allowed, then digits, with single underscores between digits; the digits,
  leading zeros too, are counted against the limit of the interpreter.\<close>

definition is_space :: "char \<Rightarrow> bool" where
  "is_space c = (c \<in> set [CHR '' '', CHR 0x09, CHR 0x0A, CHR 0x0B, CHR 0x0C, CHR 0x0D,
                          CHR 0x85, CHR 0xA0])"

definition strip :: "string \<Rightarrow> string" where
  "strip s = rev (dropWhile is_space (rev (dropWhile is_space s)))"

fun digits_from :: "nat \<Rightarrow> string \<Rightarrow> nat option" where
  "digits_from acc [] = Some acc"
| "digits_from acc [c] =
     (case digit_of c of None \<Rightarrow> None | Some d \<Rightarrow> Some (10 * acc + d))"
| "digits_from acc (c # c' # cs) =
     (case digit_of c of
        Some d \<Rightarrow> digits_from (10 * acc + d) (c' # cs)
      | None \<Rightarrow>
          if c = CHR ''_'' then
            (case digit_of c' of None \<Rightarrow> None | Some d' \<Rightarrow> digits_from (10 * acc + d') cs)
          else None)"

definition unsigned_of_str :: "string \<Rightarrow> exn + int" where
  "unsigned_of_str s =
     (case s of
        [] \<Rightarrow> Inl ValueError
      | c # cs \<Rightarrow>
          (case digit_of c of
             None \<Rightarrow> Inl ValueError
           | Some d \<Rightarrow>
               (case digits_from d cs of
                  None \<Rightarrow> Inl ValueError
                | Some n \<Rightarrow> Inr (int n))))"

definition count_digits :: "string \<Rightarrow> nat" where
  "count_digits s = length (filter (\<lambda>c. digit_of c \<noteq> None) s)"

definition within_limit :: "env \<Rightarrow> string \<Rightarrow> bool" where
  "within_limit E s = (max_str_digits E = 0 \<or> count_digits s \<le> max_str_digits E)"

definition int_of_str :: "env \<Rightarrow> string \<Rightarrow> exn + int" where
  "int_of_str E s =
     (if \<not> within_limit E s then Inl ValueError
      else
        (case strip s of
           [] \<Rightarrow> Inl ValueError
         | c # cs \<Rightarrow>
             if c = CHR ''-'' then
               (case unsigned_of_str cs of Inl e \<Rightarrow> Inl e | Inr n \<Rightarrow> Inr (- n))
             else if c = CHR ''+'' then unsigned_of_str cs
             else unsigned_of_str (c # cs)))"

text \<open>\<open>int(x)\<close> on a float truncates towards zero and raises on infinities and NaN.\<close>

fun int_of_float :: "pyfloat \<Rightarrow> exn + int" where
  "int_of_float (Finite r) = Inr (if 0 \<le> r then \<lfloor>r\<rfloor> else \<lceil>r\<rceil>)"
| "int_of_float PosInf = Inl OverflowError"
| "int_of_float NegInf = Inl OverflowError"
| "int_of_float NaN = Inl ValueError"

fun py_int :: "env \<Rightarrow> pyval \<Rightarrow> exn + int" where
  "py_int E PNone = Inl TypeError"
| "py_int E (PBool b) = Inr (if b then 1 else 0)"
| "py_int E (PInt i) = Inr i"
| "py_int E (PFloat x) = int_of_float x"
| "py_int E (PStr s) = int_of_str E s"

fun py_float :: "env \<Rightarrow> pyval \<Rightarrow> exn + pyfloat" where
  "py_float E PNone = Inl TypeError"
| "py_float E (PBool b) = float_of_int E (if b then 1 else 0)"
| "py_float E (PInt i) = float_of_int E i"
| "py_float E (PFloat x) = Inr x"
| "py_float E (PStr s) = float_of_str E s"

definition endswith :: "string \<Rightarrow> string \<Rightarrow> bool" where
  "endswith s suf = (length suf \<le> length s \<and> drop (length s - length suf) s = suf)"

fun dict_set :: "'k \<Rightarrow> 'v \<Rightarrow> ('k \<times> 'v) list \<Rightarrow> ('k \<times> 'v) list" where
  "dict_set k v [] = [(k, v)]"
| "dict_set k v ((k', v') # kvs) =
     (if k' = k then (k, v) # kvs else (k', v') # dict_set k v kvs)"

text \<open>The truth value of a Python value, as \<open>if x:\<close> takes it.\<close>

fun truth :: "pyval \<Rightarrow> bool" where
  "truth PNone = False"
| "truth (PBool b) = b"
| "truth (PInt i) = (i \<noteq> 0)"
| "truth (PFloat x) = (x \<noteq> Finite 0)"
| "truth (PStr s) = (s \<noteq> [])"

subsection \<open>Messages\<close>

text \<open>One constructor for each \<open>return\<close> of a handler and of the dispatcher. The tree,
  the summary and the JSON listing carry the data they are rendered from; their layout
  is not modelled.\<close>

datatype reply =
    CreatedAAS string string
  | ErrorCreatingAAS exn
  | NoAASExists
  | AddedSubmodel string
  | ErrorAddingSubmodel exn
  | SubmodelNotFound string
  | InvalidValueType string
  | AddedProperty string string string pyval "string option"
  | ErrorAddingProperty exn
  | PropertyNotFoundIn string string
  | NotAProperty string
  | UpdatedProperty string pyval pyval
  | ErrorUpdatingProperty exn
  | PropertyNotFound string
  | PropertyValue string pyval vtype
  | ElementNotAProperty string
  | ErrorGettingProperty exn
  | NoAASToSave
  | SavedAAS string nat nat
  | ErrorSaving exn
  | LoadedAAS string string nat nat nat
  | NoAASInFile
  | FileNotFound string
  | ErrorLoading exn
  | NoAASAvailable
  | TreeView shell "submodel list"
  | NoAASYet
  | CurrentState shell "submodel list"
  | AddedConcept string "string option" "string option"
  | ErrorAddingConcept exn
  | UpdatedSemanticId string string
  | ErrorUpdatingSemanticId exn
  | NoAASToExport
  | DigitalTwinJson json string nat nat nat
  | ErrorGeneratingJson exn
  | UnknownFunction string
  | ErrorExecuting string exn

text \<open>The messages that report a failure: those whose text starts with the cross mark.\<close>

fun is_failure :: "reply \<Rightarrow> bool" where
  "is_failure (CreatedAAS _ _) = False"
| "is_failure (AddedSubmodel _) = False"
| "is_failure (AddedProperty _ _ _ _ _) = False"
| "is_failure (UpdatedProperty _ _ _) = False"
| "is_failure (PropertyValue _ _ _) = False"
| "is_failure (ElementNotAProperty _) = False"
| "is_failure (SavedAAS _ _ _) = False"
| "is_failure (LoadedAAS _ _ _ _ _) = False"
| "is_failure (TreeView _ _) = False"
| "is_failure NoAASYet = False"
| "is_failure (CurrentState _ _) = False"
| "is_failure (AddedConcept _ _ _) = False"
| "is_failure (UpdatedSemanticId _ _) = False"
| "is_failure (DigitalTwinJson _ _ _ _ _) = False"
| "is_failure _ = True"

subsection \<open>Lookups\<close>

text \<open>The loop \<open>for sm in self.submodels.values(): if sm.id_short == name: ... break\<close>:
  the first entry, in dict order, whose submodel has the short name.\<close>

fun find_submodel :: "(string \<times> submodel) list \<Rightarrow> string \<Rightarrow> (string \<times> submodel) option" where
  "find_submodel [] n = None"
| "find_submodel ((k, sm) # rest) n =
     (if sm_id_short sm = n then Some (k, sm) else find_submodel rest n)"

fun elem_id_short :: "element \<Rightarrow> string" where
  "elem_id_short (Property p) = id_short p"
| "elem_id_short (OtherElement n) = n"

text \<open>The lookup by short name gives the first element with the name and raises
  \<open>KeyError\<close> when there is none. An element that was found is an object of a library
  class and counts as true, so the test \<open>if not property_elem\<close> of the handlers does
  not succeed.\<close>

fun get_object_by_attribute :: "element list \<Rightarrow> string \<Rightarrow> exn + element" where
  "get_object_by_attribute [] n = Inl KeyError"
| "get_object_by_attribute (e # es) n =
     (if elem_id_short e = n then Inr e else get_object_by_attribute es n)"

definition element_truth :: "element \<Rightarrow> bool" where
  "element_truth e = True"

text \<open>The found element is an object of the submodel: assigning to its value changes it
  where it stands.\<close>

fun replace_element :: "string \<Rightarrow> element \<Rightarrow> element list \<Rightarrow> element list" where
  "replace_element n e' [] = []"
| "replace_element n e' (e # es) =
     (if elem_id_short e = n then e' # es else e # replace_element n e' es)"

text \<open>The setter of the semantic id takes the element out of the collection of its
  submodel and adds it again, so the element comes to stand last.\<close>

fun remove_element :: "string \<Rightarrow> element list \<Rightarrow> element list" where
  "remove_element n [] = []"
| "remove_element n (e # es) = (if elem_id_short e = n then es else e # remove_element n es)"

subsection \<open>Value coercion\<close>

definition type_map :: "string \<Rightarrow> vtype option" where
  "type_map = map_of [(''string'', XsString), (''int'', XsInt), (''float'', XsFloat),
                      (''boolean'', XsBoolean)]"

definition truthy :: "string list" where
  "truthy = [''true'', ''t'', ''yes'', ''1'']"

text \<open>\<open>bool(value) if isinstance(value, bool) else str(value).lower() in (...)\<close>\<close>

fun coerce_boolean :: "env \<Rightarrow> pyval \<Rightarrow> bool" where
  "coerce_boolean E (PBool b) = b"
| "coerce_boolean E v = (lower (py_str E v) \<in> set truthy)"

text \<open>The \<open>if\<close>/\<open>elif\<close> chain of \<open>add_property\<close>, on the lowercased tag.\<close>

definition convert_by_tag :: "env \<Rightarrow> string \<Rightarrow> pyval \<Rightarrow> exn + pyval" where
  "convert_by_tag E tag v =
     (if tag = ''int'' then (case py_int E v of Inl e \<Rightarrow> Inl e | Inr i \<Rightarrow> Inr (PInt i))
      else if tag = ''float'' then
        (case py_float E v of Inl e \<Rightarrow> Inl e | Inr x \<Rightarrow> Inr (PFloat x))
      else if tag = ''boolean'' then Inr (PBool (coerce_boolean E v))
      else Inr (PStr (py_str E v)))"

text \<open>The \<open>if\<close>/\<open>elif\<close> chain of \<open>update_property\<close>, on the declared type of the
  element.\<close>

definition convert_by_type :: "env \<Rightarrow> vtype \<Rightarrow> pyval \<Rightarrow> exn + pyval" where
  "convert_by_type E t v =
     (if t = XsInt then (case py_int E v of Inl e \<Rightarrow> Inl e | Inr i \<Rightarrow> Inr (PInt i))
      else if t = XsFloat then
        (case py_float E v of Inl e \<Rightarrow> Inl e | Inr x \<Rightarrow> Inr (PFloat x))
      else if t = XsBoolean then Inr (PBool (coerce_boolean E v))
      else Inr (PStr (py_str E v)))"

text \<open>The assignment \<open>property_elem.value = ...\<close>: the right-hand side is converted,
  then the setter of the library checks the result against the declared type. Either
  may raise; then nothing is assigned.\<close>

definition assign_value :: "env \<Rightarrow> vtype \<Rightarrow> pyval \<Rightarrow> exn + pyval" where
  "assign_value E t v =
     (case convert_by_type E t v of
        Inl e \<Rightarrow> Inl e
      | Inr nv \<Rightarrow>
          (case lib_check E (SetValue t nv) of Some e \<Rightarrow> Inl e | None \<Rightarrow> Inr nv))"

subsection \<open>The handlers\<close>

text \<open>Each handler takes the agent and returns its message and the agent afterwards; a
  handler that only reads returns its message. The body of a handler is one \<open>try\<close>
  block whose \<open>except\<close> returns the handler's error message, so a library call that
  raises ends the handler with the agent as it is at that point.\<close>

definition create_aas :: "env \<Rightarrow> agent \<Rightarrow> string \<Rightarrow> string \<Rightarrow> string \<Rightarrow> reply \<times> agent" where
  "create_aas E st i s g =
     (case lib_check E (NewAssetInformation g) of
        Some e \<Rightarrow> (ErrorCreatingAAS e, st)
      | None \<Rightarrow>
          (case lib_check E (NewShell i s) of
             Some e \<Rightarrow> (ErrorCreatingAAS e, st)
           | None \<Rightarrow>
               (CreatedAAS s i,
                st\<lparr>aas := Some \<lparr>aas_id = i, aas_id_short = s, aas_asset_kind = INSTANCE,
                                 global_asset_id = g, submodel_refs = []\<rparr>\<rparr>)))"

text \<open>The dict is assigned before the reference is added to the shell.\<close>

definition add_submodel :: "env \<Rightarrow> agent \<Rightarrow> string \<Rightarrow> string \<Rightarrow> reply \<times> agent" where
  "add_submodel E st i s =
     (case aas st of
        None \<Rightarrow> (NoAASExists, st)
      | Some a \<Rightarrow>
          (case lib_check E (NewSubmodel i s) of
             Some e \<Rightarrow> (ErrorAddingSubmodel e, st)
           | None \<Rightarrow>
               (let st1 = st\<lparr>submodels :=
                              dict_set i \<lparr>sm_id = i, sm_id_short = s, submodel_element = []\<rparr>
                                (submodels st)\<rparr>
                in case lib_check E (NewModelReference i) of
                     Some e \<Rightarrow> (ErrorAddingSubmodel e, st1)
                   | None \<Rightarrow>
                       (AddedSubmodel s,
                        st1\<lparr>aas := Some (a\<lparr>submodel_refs :=
                                              List.insert i (submodel_refs a)\<rparr>)\<rparr>))))"

text \<open>The submodel a handler found is an object of the dict: a change to it shows at the
  first entry with that short name.\<close>

fun map_submodel ::
  "string \<Rightarrow> (submodel \<Rightarrow> submodel) \<Rightarrow> (string \<times> submodel) list \<Rightarrow> (string \<times> submodel) list" where
  "map_submodel n f [] = []"
| "map_submodel n f ((k, sm) # rest) =
     (if sm_id_short sm = n then (k, f sm) # rest else (k, sm) # map_submodel n f rest)"

fun nonempty :: "string option \<Rightarrow> string option" where
  "nonempty None = None"
| "nonempty (Some s) = (if s = [] then None else Some s)"

definition add_property ::
  "env \<Rightarrow> agent \<Rightarrow> string \<Rightarrow> string \<Rightarrow> string \<Rightarrow> pyval \<Rightarrow> string option \<Rightarrow> reply \<times> agent" where
  "add_property E st sn pn vt v sem =
     (case find_submodel (submodels st) sn of
        None \<Rightarrow> (SubmodelNotFound sn, st)
      | Some (k, sm) \<Rightarrow>
          (case type_map (lower vt) of
             None \<Rightarrow> (InvalidValueType vt, st)
           | Some t \<Rightarrow>
               (case (if v = PNone then Inr PNone else convert_by_tag E (lower vt) v) of
                  Inl e \<Rightarrow> (ErrorAddingProperty e, st)
                | Inr cv \<Rightarrow>
                    (case lib_check E (NewProperty pn t cv) of
                       Some e \<Rightarrow> (ErrorAddingProperty e, st)
                     | None \<Rightarrow>
                         (case (case nonempty sem of
                                  None \<Rightarrow> None
                                | Some r \<Rightarrow> lib_check E (NewExternalReference r)) of
                            Some e \<Rightarrow> (ErrorAddingProperty e, st)
                          | None \<Rightarrow>
                              (case lib_check E (AddElement (submodel_element sm) pn) of
                                 Some e \<Rightarrow> (ErrorAddingProperty e, st)
                               | None \<Rightarrow>
                                   (AddedProperty pn vt sn cv (nonempty sem),
                                    st\<lparr>submodels :=
                                         map_submodel sn
                                           (\<lambda>m. m\<lparr>submodel_element := submodel_element m @
                                              [Property \<lparr>id_short = pn, value_type = t,
                                                 prop_value = cv,
                                                 semantic_id = nonempty sem\<rparr>]\<rparr>)
                                           (submodels st)\<rparr>)))))))"

definition set_element :: "string \<Rightarrow> string \<Rightarrow> element \<Rightarrow> agent \<Rightarrow> agent" where
  "set_element sn pn e' st =
     st\<lparr>submodels :=
          map_submodel sn
            (\<lambda>m. m\<lparr>submodel_element := replace_element pn e' (submodel_element m)\<rparr>)
            (submodels st)\<rparr>"

definition update_property :: "env \<Rightarrow> agent \<Rightarrow> string \<Rightarrow> string \<Rightarrow> pyval \<Rightarrow> reply \<times> agent" where
  "update_property E st sn pn v =
     (case find_submodel (submodels st) sn of
        None \<Rightarrow> (SubmodelNotFound sn, st)
      | Some (k, sm) \<Rightarrow>
          (case get_object_by_attribute (submodel_element sm) pn of
             Inl e \<Rightarrow> (ErrorUpdatingProperty e, st)
           | Inr el \<Rightarrow>
               if \<not> element_truth el then (PropertyNotFoundIn pn sn, st)
               else
                 (case el of
                    OtherElement n \<Rightarrow> (NotAProperty pn, st)
                  | Property p \<Rightarrow>
                      (case assign_value E (value_type p) v of
                         Inl e \<Rightarrow> (ErrorUpdatingProperty e, st)
                       | Inr nv \<Rightarrow>
                           (UpdatedProperty pn (prop_value p) nv,
                            set_element sn pn (Property (p\<lparr>prop_value := nv\<rparr>)) st)))))"

definition get_property_value :: "agent \<Rightarrow> string \<Rightarrow> string \<Rightarrow> reply" where
  "get_property_value st sn pn =
     (case find_submodel (submodels st) sn of
        None \<Rightarrow> SubmodelNotFound sn
      | Some (k, sm) \<Rightarrow>
          (case get_object_by_attribute (submodel_element sm) pn of
             Inl e \<Rightarrow> ErrorGettingProperty e
           | Inr el \<Rightarrow>
               if \<not> element_truth el then PropertyNotFound pn
               else
                 (case el of
                    Property p \<Rightarrow> PropertyValue pn (prop_value p) (value_type p)
                  | OtherElement n \<Rightarrow> ElementNotAProperty pn)))"

definition move_element :: "string \<Rightarrow> string \<Rightarrow> element \<Rightarrow> agent \<Rightarrow> agent" where
  "move_element sn pn e' st =
     st\<lparr>submodels :=
          map_submodel sn
            (\<lambda>m. m\<lparr>submodel_element := remove_element pn (submodel_element m) @ [e']\<rparr>)
            (submodels st)\<rparr>"

definition update_semantic_id :: "env \<Rightarrow> agent \<Rightarrow> string \<Rightarrow> string \<Rightarrow> string \<Rightarrow> reply \<times> agent" where
  "update_semantic_id E st sn pn sem =
     (case find_submodel (submodels st) sn of
        None \<Rightarrow> (SubmodelNotFound sn, st)
      | Some (k, sm) \<Rightarrow>
          (case get_object_by_attribute (submodel_element sm) pn of
             Inl e \<Rightarrow> (ErrorUpdatingSemanticId e, st)
           | Inr el \<Rightarrow>
               if \<not> element_truth el then (PropertyNotFoundIn pn sn, st)
               else
                 (case el of
                    OtherElement n \<Rightarrow> (NotAProperty pn, st)
                  | Property p \<Rightarrow>
                      (case lib_check E (NewExternalReference sem) of
                         Some e \<Rightarrow> (ErrorUpdatingSemanticId e, st)
                       | None \<Rightarrow>
                           (case lib_check E (SetSemanticId (submodel_element sm) pn sem) of
                              Some e \<Rightarrow> (ErrorUpdatingSemanticId e, st)
                            | None \<Rightarrow>
                                (UpdatedSemanticId pn sem,
                                 move_element sn pn (Property (p\<lparr>semantic_id := Some sem\<rparr>))
                                   st))))))"

definition add_concept_description ::
  "env \<Rightarrow> agent \<Rightarrow> string \<Rightarrow> string \<Rightarrow> string option \<Rightarrow> string option \<Rightarrow> reply \<times> agent" where
  "add_concept_description E st i s pname defn =
     (case lib_check E (NewConcept i s) of
        Some e \<Rightarrow> (ErrorAddingConcept e, st)
      | None \<Rightarrow>
          (case (case nonempty pname of
                   None \<Rightarrow> None | Some n \<Rightarrow> lib_check E (NewNameType n)) of
             Some e \<Rightarrow> (ErrorAddingConcept e, st)
           | None \<Rightarrow>
               (case (case nonempty defn of
                        None \<Rightarrow> None | Some d \<Rightarrow> lib_check E (NewTextType d)) of
                  Some e \<Rightarrow> (ErrorAddingConcept e, st)
                | None \<Rightarrow>
                    (AddedConcept s (nonempty pname) (nonempty defn),
                     st\<lparr>concept_descriptions :=
                          dict_set i \<lparr>cd_id = i, cd_id_short = s,
                                       display_name = nonempty pname,
                                       description = nonempty defn\<rparr>
                            (concept_descriptions st)\<rparr>))))"

subsection \<open>Rendering\<close>

definition get_tree_view :: "agent \<Rightarrow> reply" where
  "get_tree_view st =
     (case aas st of None \<Rightarrow> NoAASAvailable | Some a \<Rightarrow> TreeView a (map snd (submodels st)))"

definition get_current_state :: "agent \<Rightarrow> reply" where
  "get_current_state st =
     (case aas st of None \<Rightarrow> NoAASYet | Some a \<Rightarrow> CurrentState a (map snd (submodels st)))"

subsection \<open>The JSON adapter\<close>

text \<open>Modelled from the spec: the serialization adapter, which in the source is the
  writer and the reader of the library (\<open>write_aas_json_file\<close>, \<open>read_aas_json_file\<close>).
  The specification fixes the attribute names (\<open>id\<close>, \<open>idShort\<close>,
  \<open>assetInformation.globalAssetId\<close>, \<open>assetInformation.assetKind\<close>, \<open>submodelElements\<close>,
  \<open>valueType\<close> and \<open>value\<close> of a property, \<open>semanticId\<close> as a reference with one
  \<open>GlobalReference\<close> key), one collection that holds the shell, all submodels and all
  concept descriptions, and a reader that fails on malformed content. A document is a
  JSON value; an absent optional attribute is written as \<open>null\<close>.\<close>

fun as_str :: "json \<Rightarrow> string option" where
  "as_str (JStr s) = Some s"
| "as_str _ = None"

fun as_arr :: "json \<Rightarrow> json list option" where
  "as_arr (JArr js) = Some js"
| "as_arr _ = None"

fun as_obj :: "json \<Rightarrow> (string \<times> json) list option" where
  "as_obj (JObj fs) = Some fs"
| "as_obj _ = None"

definition field_str :: "(string \<times> json) list \<Rightarrow> string \<Rightarrow> string option" where
  "field_str fs k = Option.bind (map_of fs k) as_str"

definition field_arr :: "(string \<times> json) list \<Rightarrow> string \<Rightarrow> json list option" where
  "field_arr fs k = Option.bind (map_of fs k) as_arr"

definition field_obj :: "(string \<times> json) list \<Rightarrow> string \<Rightarrow> (string \<times> json) list option" where
  "field_obj fs k = Option.bind (map_of fs k) as_obj"

text \<open>An optional attribute: \<open>null\<close> reads as absent, another value must decode.\<close>

definition field_opt ::
  "(string \<times> json) list \<Rightarrow> string \<Rightarrow> (json \<Rightarrow> 'a option) \<Rightarrow> 'a option option" where
  "field_opt fs k dec =
     (case map_of fs k of
        None \<Rightarrow> None
      | Some JNull \<Rightarrow> Some None
      | Some j \<Rightarrow> (case dec j of None \<Rightarrow> None | Some x \<Rightarrow> Some (Some x)))"

definition json_of_opt :: "('a \<Rightarrow> json) \<Rightarrow> 'a option \<Rightarrow> json" where
  "json_of_opt enc x = (case x of None \<Rightarrow> JNull | Some y \<Rightarrow> enc y)"

fun json_of_value :: "pyval \<Rightarrow> json" where
  "json_of_value PNone = JNull"
| "json_of_value (PBool b) = JBool b"
| "json_of_value (PInt i) = JInt i"
| "json_of_value (PFloat x) = JFloat x"
| "json_of_value (PStr s) = JStr s"

fun value_of_json :: "json \<Rightarrow> pyval option" where
  "value_of_json JNull = Some PNone"
| "value_of_json (JBool b) = Some (PBool b)"
| "value_of_json (JInt i) = Some (PInt i)"
| "value_of_json (JFloat x) = Some (PFloat x)"
| "value_of_json (JStr s) = Some (PStr s)"
| "value_of_json _ = None"

fun tag_of_vtype :: "vtype \<Rightarrow> string" where
  "tag_of_vtype XsString = ''xs:string''"
| "tag_of_vtype XsInt = ''xs:int''"
| "tag_of_vtype XsFloat = ''xs:float''"
| "tag_of_vtype XsBoolean = ''xs:boolean''"

definition vtype_of_tag :: "string \<Rightarrow> vtype option" where
  "vtype_of_tag = map_of [(''xs:string'', XsString), (''xs:int'', XsInt),
                          (''xs:float'', XsFloat), (''xs:boolean'', XsBoolean)]"

text \<open>A reference with one key of the given type.\<close>

definition json_of_reference :: "string \<Rightarrow> string \<Rightarrow> json" where
  "json_of_reference kt v = JObj [(''keys'', JArr [JObj [(''type'', JStr kt), (''value'', JStr v)]])]"

definition reference_of_json :: "string \<Rightarrow> json \<Rightarrow> string option" where
  "reference_of_json kt j =
     Option.bind (as_obj j) (\<lambda>fs.
       case field_arr fs ''keys'' of
         Some [k] \<Rightarrow>
           Option.bind (as_obj k) (\<lambda>kf.
             if field_str kf ''type'' = Some kt then field_str kf ''value'' else None)
       | _ \<Rightarrow> None)"

fun json_of_element :: "element \<Rightarrow> json" where
  "json_of_element (Property p) =
     JObj [(''modelType'', JStr ''Property''), (''idShort'', JStr (id_short p)),
           (''valueType'', JStr (tag_of_vtype (value_type p))),
           (''value'', json_of_value (prop_value p)),
           (''semanticId'', json_of_opt (json_of_reference ''GlobalReference'') (semantic_id p))]"
| "json_of_element (OtherElement n) =
     JObj [(''modelType'', JStr ''SubmodelElement''), (''idShort'', JStr n)]"

definition element_of_json :: "json \<Rightarrow> element option" where
  "element_of_json j =
     Option.bind (as_obj j) (\<lambda>fs.
       Option.bind (field_str fs ''idShort'') (\<lambda>n.
         if field_str fs ''modelType'' = Some ''Property'' then
           Option.bind (Option.bind (field_str fs ''valueType'') vtype_of_tag) (\<lambda>t.
             Option.bind (Option.bind (map_of fs ''value'') value_of_json) (\<lambda>v.
               Option.bind (field_opt fs ''semanticId'' (reference_of_json ''GlobalReference''))
                 (\<lambda>r. Some (Property \<lparr>id_short = n, value_type = t, prop_value = v,
                                        semantic_id = r\<rparr>))))
         else if field_str fs ''modelType'' = Some ''SubmodelElement'' then Some (OtherElement n)
         else None))"

text \<open>A list decodes when each of its members does.\<close>

definition list_of_json :: "(json \<Rightarrow> 'a option) \<Rightarrow> json list \<Rightarrow> 'a list option" where
  "list_of_json dec js = those (map dec js)"

definition json_of_submodel :: "submodel \<Rightarrow> json" where
  "json_of_submodel m =
     JObj [(''id'', JStr (sm_id m)), (''idShort'', JStr (sm_id_short m)),
           (''submodelElements'', JArr (map json_of_element (submodel_element m)))]"

definition submodel_of_json :: "json \<Rightarrow> submodel option" where
  "submodel_of_json j =
     Option.bind (as_obj j) (\<lambda>fs.
       Option.bind (field_str fs ''id'') (\<lambda>i.
         Option.bind (field_str fs ''idShort'') (\<lambda>n.
           Option.bind (Option.bind (field_arr fs ''submodelElements'') (list_of_json element_of_json))
             (\<lambda>es. Some \<lparr>sm_id = i, sm_id_short = n, submodel_element = es\<rparr>))))"

fun tag_of_kind :: "asset_kind \<Rightarrow> string" where
  "tag_of_kind INSTANCE = ''Instance''"
| "tag_of_kind asset_kind.TYPE = ''Type''"

definition kind_of_tag :: "string \<Rightarrow> asset_kind option" where
  "kind_of_tag = map_of [(''Instance'', INSTANCE), (''Type'', asset_kind.TYPE)]"

definition json_of_shell :: "shell \<Rightarrow> json" where
  "json_of_shell a =
     JObj [(''id'', JStr (aas_id a)), (''idShort'', JStr (aas_id_short a)),
           (''assetInformation'',
              JObj [(''assetKind'', JStr (tag_of_kind (aas_asset_kind a))),
                    (''globalAssetId'', JStr (global_asset_id a))]),
           (''submodels'', JArr (map (json_of_reference ''Submodel'') (submodel_refs a)))]"

definition shell_of_json :: "json \<Rightarrow> shell option" where
  "shell_of_json j =
     Option.bind (as_obj j) (\<lambda>fs.
       Option.bind (field_str fs ''id'') (\<lambda>i.
         Option.bind (field_str fs ''idShort'') (\<lambda>n.
           Option.bind (field_obj fs ''assetInformation'') (\<lambda>ai.
             Option.bind (Option.bind (field_str ai ''assetKind'') kind_of_tag) (\<lambda>k.
               Option.bind (field_str ai ''globalAssetId'') (\<lambda>g.
                 Option.bind (Option.bind (field_arr fs ''submodels'')
                                (list_of_json (reference_of_json ''Submodel'')))
                   (\<lambda>rs. Some \<lparr>aas_id = i, aas_id_short = n, aas_asset_kind = k,
                                 global_asset_id = g, submodel_refs = rs\<rparr>)))))))"

text \<open>A text in the one language \<open>en\<close>.\<close>

definition json_of_text :: "string \<Rightarrow> json" where
  "json_of_text t = JArr [JObj [(''language'', JStr ''en''), (''text'', JStr t)]]"

definition text_of_json :: "json \<Rightarrow> string option" where
  "text_of_json j =
     (case as_arr j of
        Some [l] \<Rightarrow>
          Option.bind (as_obj l) (\<lambda>lf.
            if field_str lf ''language'' = Some ''en'' then field_str lf ''text'' else None)
      | _ \<Rightarrow> None)"

definition json_of_concept :: "concept \<Rightarrow> json" where
  "json_of_concept c =
     JObj [(''id'', JStr (cd_id c)), (''idShort'', JStr (cd_id_short c)),
           (''displayName'', json_of_opt json_of_text (display_name c)),
           (''description'', json_of_opt json_of_text (description c))]"

definition concept_of_json :: "json \<Rightarrow> concept option" where
  "concept_of_json j =
     Option.bind (as_obj j) (\<lambda>fs.
       Option.bind (field_str fs ''id'') (\<lambda>i.
         Option.bind (field_str fs ''idShort'') (\<lambda>n.
           Option.bind (field_opt fs ''displayName'' text_of_json) (\<lambda>d.
             Option.bind (field_opt fs ''description'' text_of_json) (\<lambda>t.
               Some \<lparr>cd_id = i, cd_id_short = n, display_name = d, description = t\<rparr>)))))"

fun shells_of :: "obj list \<Rightarrow> shell list" where
  "shells_of [] = []"
| "shells_of (OShell a # os) = a # shells_of os"
| "shells_of (_ # os) = shells_of os"

fun submodels_of :: "obj list \<Rightarrow> submodel list" where
  "submodels_of [] = []"
| "submodels_of (OSubmodel m # os) = m # submodels_of os"
| "submodels_of (_ # os) = submodels_of os"

fun concepts_of :: "obj list \<Rightarrow> concept list" where
  "concepts_of [] = []"
| "concepts_of (OConcept c # os) = c # concepts_of os"
| "concepts_of (_ # os) = concepts_of os"

text \<open>The writer sorts the objects of the store into the three lists of the document;
  the reader gives the shells, then the submodels, then the concept descriptions, each
  list in the order of the document, and raises on a document that does not decode.\<close>

definition write_aas_json :: "obj list \<Rightarrow> json" where
  "write_aas_json os =
     JObj [(''assetAdministrationShells'', JArr (map json_of_shell (shells_of os))),
           (''submodels'', JArr (map json_of_submodel (submodels_of os))),
           (''conceptDescriptions'', JArr (map json_of_concept (concepts_of os)))]"

definition objects_of_json :: "json \<Rightarrow> obj list option" where
  "objects_of_json j =
     Option.bind (as_obj j) (\<lambda>fs.
       Option.bind (Option.bind (field_arr fs ''assetAdministrationShells'')
                      (list_of_json shell_of_json)) (\<lambda>shs.
         Option.bind (Option.bind (field_arr fs ''submodels'')
                        (list_of_json submodel_of_json)) (\<lambda>sms.
           Option.bind (Option.bind (field_arr fs ''conceptDescriptions'')
                          (list_of_json concept_of_json)) (\<lambda>cds.
             Some (map OShell shs @ map OSubmodel sms @ map OConcept cds)))))"

definition read_aas_json :: "json \<Rightarrow> exn + obj list" where
  "read_aas_json j = (case objects_of_json j of None \<Rightarrow> Inl LibraryError | Some os \<Rightarrow> Inr os)"

subsection \<open>Files\<close>

text \<open>The file system maps a path to the document the file holds. \<open>open(path, 'w')\<close> may
  raise (a missing directory, a file that may not be written); then no file is
  written. A file that was written can be read.\<close>

type_synonym files = "string \<Rightarrow> json option"

definition all_objects :: "shell \<Rightarrow> agent \<Rightarrow> obj list" where
  "all_objects a st =
     OShell a # map (\<lambda>kv. OSubmodel (snd kv)) (submodels st) @
       map (\<lambda>kv. OConcept (snd kv)) (concept_descriptions st)"

definition total_elements :: "agent \<Rightarrow> nat" where
  "total_elements st = sum_list (map (\<lambda>kv. length (submodel_element (snd kv))) (submodels st))"

text \<open>The object store is filled before the file is opened.\<close>

definition save_aas :: "env \<Rightarrow> agent \<Rightarrow> files \<Rightarrow> string \<Rightarrow> reply \<times> files" where
  "save_aas E st fs filename =
     (case aas st of
        None \<Rightarrow> (NoAASToSave, fs)
      | Some a \<Rightarrow>
          (let fn = (if endswith filename ''.json'' then filename else filename @ ''.json'')
           in case lib_check E (StoreAddAll (map obj_id (all_objects a st))) of
                Some e \<Rightarrow> (ErrorSaving e, fs)
              | None \<Rightarrow>
                  (case open_for_writing E fn of
                     Some e \<Rightarrow> (ErrorSaving e, fs)
                   | None \<Rightarrow>
                       (SavedAAS fn (length (submodels st)) (length (concept_descriptions st)),
                        fs(fn \<mapsto> write_aas_json (all_objects a st))))))"

fun first_shell :: "obj list \<Rightarrow> shell option" where
  "first_shell [] = None"
| "first_shell (OShell a # os) = Some a"
| "first_shell (_ # os) = first_shell os"

fun load_submodels :: "obj list \<Rightarrow> (string \<times> submodel) list \<Rightarrow> (string \<times> submodel) list" where
  "load_submodels [] d = d"
| "load_submodels (OSubmodel s # os) d = load_submodels os (dict_set (sm_id s) s d)"
| "load_submodels (_ # os) d = load_submodels os d"

fun load_concepts :: "obj list \<Rightarrow> (string \<times> concept) list \<Rightarrow> (string \<times> concept) list" where
  "load_concepts [] d = d"
| "load_concepts (OConcept c # os) d = load_concepts os (dict_set (cd_id c) c d)"
| "load_concepts (_ # os) d = load_concepts os d"

text \<open>The three loops over the loaded store.\<close>

definition loaded :: "obj list \<Rightarrow> agent" where
  "loaded objs = \<lparr>aas = first_shell objs, submodels = load_submodels objs [],
                   concept_descriptions = load_concepts objs []\<rparr>"

definition load_error :: "string \<Rightarrow> exn \<Rightarrow> reply" where
  "load_error filename e = (if e = FileNotFoundError then FileNotFound filename else ErrorLoading e)"

text \<open>What \<open>load_aas\<close> does once the file is open; \<open>shown\<close> is the file name as the
  messages print it.\<close>

definition load_document :: "string \<Rightarrow> json \<Rightarrow> agent \<Rightarrow> reply \<times> agent" where
  "load_document shown doc st =
     (case read_aas_json doc of
        Inl e \<Rightarrow> (load_error shown e, st)
      | Inr objs \<Rightarrow>
          (let st' = loaded objs
           in case aas st' of
                Some a \<Rightarrow>
                  (LoadedAAS (aas_id_short a) shown (length (submodels st'))
                     (total_elements st') (length (concept_descriptions st')), st')
              | None \<Rightarrow> (NoAASInFile, st')))"

definition load_aas :: "env \<Rightarrow> agent \<Rightarrow> files \<Rightarrow> string \<Rightarrow> reply \<times> agent" where
  "load_aas E st fs filename =
     (case fs filename of
        None \<Rightarrow> (load_error filename FileNotFoundError, st)
      | Some doc \<Rightarrow> load_document filename doc st)"

definition get_digital_twin_json :: "env \<Rightarrow> agent \<Rightarrow> reply" where
  "get_digital_twin_json E st =
     (case aas st of
        None \<Rightarrow> NoAASToExport
      | Some a \<Rightarrow>
          (case lib_check E (StoreAddAll (map obj_id (all_objects a st))) of
             Some e \<Rightarrow> ErrorGeneratingJson e
           | None \<Rightarrow>
               DigitalTwinJson (write_aas_json (all_objects a st)) (aas_id_short a)
                 (length (submodels st)) (total_elements st)
                 (length (concept_descriptions st))))"

subsection \<open>The dispatcher\<close>

text \<open>The arguments are the items of the keyword dict. The call \<open>func(**arguments)\<close>
  raises \<open>TypeError\<close> when a keyword is not a parameter of the handler or a parameter
  without default is missing; otherwise the body runs on the values of the dict, a
  parameter with default that has no keyword being \<open>None\<close>.\<close>

type_synonym args = "(string \<times> pyval) list"

text \<open>The parameters of the twelve handlers, after \<open>self\<close>: those without default and
  those with default \<open>None\<close>.\<close>

definition parameters :: "string \<Rightarrow> (string list \<times> string list) option" where
  "parameters =
     map_of
       [(''create_aas'', ([''aas_id'', ''id_short'', ''global_asset_id''], [])),
        (''add_submodel'', ([''submodel_id'', ''id_short''], [])),
        (''add_property'', ([''submodel_id_short'', ''property_name'', ''value_type''],
                            [''value'', ''semantic_id''])),
        (''update_property'', ([''submodel_id_short'', ''property_name'', ''value''], [])),
        (''get_property_value'', ([''submodel_id_short'', ''property_name''], [])),
        (''save_aas'', ([''filename''], [])),
        (''load_aas'', ([''filename''], [])),
        (''get_tree_view'', ([], [])),
        (''get_current_state'', ([], [])),
        (''add_concept_description'', ([''concept_id'', ''id_short''],
                                       [''preferred_name'', ''definition''])),
        (''update_semantic_id'', ([''submodel_id_short'', ''property_name'', ''semantic_id''],
                                  [])),
        (''get_digital_twin_json'', ([], []))]"

text \<open>The keys of \<open>function_map\<close>.\<close>

definition function_names :: "string list" where
  "function_names =
     [''create_aas'', ''add_submodel'', ''add_property'', ''update_property'',
      ''get_property_value'', ''save_aas'', ''load_aas'', ''get_tree_view'',
      ''get_current_state'', ''add_concept_description'', ''update_semantic_id'',
      ''get_digital_twin_json'']"

definition binds :: "string list \<Rightarrow> string list \<Rightarrow> args \<Rightarrow> bool" where
  "binds required optional a =
     (list_all (\<lambda>k. k \<in> set (required @ optional)) (map fst a) \<and>
      list_all (\<lambda>k. k \<in> set (map fst a)) required)"

definition val_arg :: "args \<Rightarrow> string \<Rightarrow> pyval" where
  "val_arg a k = (case map_of a k of None \<Rightarrow> PNone | Some v \<Rightarrow> v)"

text \<open>The handlers above are typed as the source annotates them. The dict may hold a
  value that is not a string where the annotation says \<open>str\<close>; the body runs on it all
  the same. What the source does with the value decides the outcome:
  \<^item> a short name that is looked up equals no short name of the document, so the lookup
    of a submodel finds none and the lookup of an element raises \<open>KeyError\<close>;
  \<^item> \<open>value_type.lower()\<close> and \<open>filename.endswith\<close> raise \<open>AttributeError\<close>;
  \<^item> \<open>if semantic_id:\<close>, \<open>if preferred_name:\<close> and \<open>if definition:\<close> skip a value that is
    false, as they skip \<open>None\<close>;
  \<^item> \<open>open\<close> takes a number for a file descriptor and raises \<open>TypeError\<close> on \<open>None\<close> and on
    a float;
  \<^item> elsewhere the value is handed to a constructor of the library, which checks the
    strings it is given and is taken to raise \<open>TypeError\<close> on a value that is none: the
    handler runs as on a string, in an environment where that constructor raises.
  In each case the \<open>except\<close> of the handler returns its error message.\<close>

fun is_str :: "pyval \<Rightarrow> bool" where
  "is_str (PStr s) = True"
| "is_str _ = False"

text \<open>The string a value stands for in the typed handler; for a value that is no string
  the constructor that would receive it raises, so the choice does not show.\<close>

fun text_of :: "pyval \<Rightarrow> string" where
  "text_of (PStr s) = s"
| "text_of _ = ''?''"

definition opt_text :: "pyval \<Rightarrow> string option" where
  "opt_text v = (if truth v then Some (text_of v) else None)"

definition rejecting :: "env \<Rightarrow> (libcall \<Rightarrow> bool) \<Rightarrow> env" where
  "rejecting E P = E\<lparr>lib_check := (\<lambda>c. if P c then Some TypeError else lib_check E c)\<rparr>"

fun is_NewAssetInformation :: "libcall \<Rightarrow> bool" where
  "is_NewAssetInformation (NewAssetInformation g) = True"
| "is_NewAssetInformation _ = False"

fun is_NewShell :: "libcall \<Rightarrow> bool" where
  "is_NewShell (NewShell i s) = True"
| "is_NewShell _ = False"

fun is_NewSubmodel :: "libcall \<Rightarrow> bool" where
  "is_NewSubmodel (NewSubmodel i s) = True"
| "is_NewSubmodel _ = False"

fun is_NewProperty :: "libcall \<Rightarrow> bool" where
  "is_NewProperty (NewProperty n t v) = True"
| "is_NewProperty _ = False"

fun is_NewExternalReference :: "libcall \<Rightarrow> bool" where
  "is_NewExternalReference (NewExternalReference r) = True"
| "is_NewExternalReference _ = False"

fun is_NewConcept :: "libcall \<Rightarrow> bool" where
  "is_NewConcept (NewConcept i s) = True"
| "is_NewConcept _ = False"

fun is_NewNameType :: "libcall \<Rightarrow> bool" where
  "is_NewNameType (NewNameType n) = True"
| "is_NewNameType _ = False"

fun is_NewTextType :: "libcall \<Rightarrow> bool" where
  "is_NewTextType (NewTextType n) = True"
| "is_NewTextType _ = False"

definition changed :: "files \<Rightarrow> reply \<times> agent \<Rightarrow> reply \<times> agent \<times> files" where
  "changed fs r = (fst r, snd r, fs)"

definition call_create_aas :: "env \<Rightarrow> agent \<Rightarrow> files \<Rightarrow> args \<Rightarrow> reply \<times> agent \<times> files" where
  "call_create_aas E st fs a =
     (let i = val_arg a ''aas_id''; s = val_arg a ''id_short'';
          g = val_arg a ''global_asset_id''
      in changed fs
           (create_aas
              (rejecting E (\<lambda>c. is_NewAssetInformation c \<and> \<not> is_str g \<or>
                                 is_NewShell c \<and> \<not> (is_str i \<and> is_str s)))
              st (text_of i) (text_of s) (text_of g)))"

definition call_add_submodel :: "env \<Rightarrow> agent \<Rightarrow> files \<Rightarrow> args \<Rightarrow> reply \<times> agent \<times> files" where
  "call_add_submodel E st fs a =
     (let i = val_arg a ''submodel_id''; s = val_arg a ''id_short''
      in changed fs
           (add_submodel (rejecting E (\<lambda>c. is_NewSubmodel c \<and> \<not> (is_str i \<and> is_str s)))
              st (text_of i) (text_of s)))"

definition call_add_property :: "env \<Rightarrow> agent \<Rightarrow> files \<Rightarrow> args \<Rightarrow> reply \<times> agent \<times> files" where
  "call_add_property E st fs a =
     (let sn = val_arg a ''submodel_id_short''; pn = val_arg a ''property_name'';
          vt = val_arg a ''value_type''; v = val_arg a ''value'';
          sem = val_arg a ''semantic_id''
      in if \<not> is_str sn then (SubmodelNotFound (py_str E sn), st, fs)
         else if \<not> is_str vt then
           (case find_submodel (submodels st) (text_of sn) of
              None \<Rightarrow> (SubmodelNotFound (text_of sn), st, fs)
            | Some m \<Rightarrow> (ErrorAddingProperty AttributeError, st, fs))
         else
           changed fs
             (add_property
                (rejecting E (\<lambda>c. is_NewProperty c \<and> \<not> is_str pn \<or>
                                   is_NewExternalReference c \<and> \<not> is_str sem))
                st (text_of sn) (text_of pn) (text_of vt) v (opt_text sem)))"

text \<open>The lookups of \<open>update_property\<close>, \<open>get_property_value\<close> and \<open>update_semantic_id\<close>
  when a name is no string; \<open>err\<close> is the error message of the handler.\<close>

definition lookup_fails ::
  "env \<Rightarrow> agent \<Rightarrow> pyval \<Rightarrow> pyval \<Rightarrow> (exn \<Rightarrow> reply) \<Rightarrow> reply option" where
  "lookup_fails E st sn pn err =
     (if \<not> is_str sn then Some (SubmodelNotFound (py_str E sn))
      else if \<not> is_str pn then
        (case find_submodel (submodels st) (text_of sn) of
           None \<Rightarrow> Some (SubmodelNotFound (text_of sn))
         | Some m \<Rightarrow> Some (err KeyError))
      else None)"

definition call_update_property ::
  "env \<Rightarrow> agent \<Rightarrow> files \<Rightarrow> args \<Rightarrow> reply \<times> agent \<times> files" where
  "call_update_property E st fs a =
     (let sn = val_arg a ''submodel_id_short''; pn = val_arg a ''property_name''
      in case lookup_fails E st sn pn ErrorUpdatingProperty of
           Some r \<Rightarrow> (r, st, fs)
         | None \<Rightarrow>
             changed fs (update_property E st (text_of sn) (text_of pn) (val_arg a ''value'')))"

definition call_get_property_value ::
  "env \<Rightarrow> agent \<Rightarrow> files \<Rightarrow> args \<Rightarrow> reply \<times> agent \<times> files" where
  "call_get_property_value E st fs a =
     (let sn = val_arg a ''submodel_id_short''; pn = val_arg a ''property_name''
      in case lookup_fails E st sn pn ErrorGettingProperty of
           Some r \<Rightarrow> (r, st, fs)
         | None \<Rightarrow> (get_property_value st (text_of sn) (text_of pn), st, fs))"

definition call_update_semantic_id ::
  "env \<Rightarrow> agent \<Rightarrow> files \<Rightarrow> args \<Rightarrow> reply \<times> agent \<times> files" where
  "call_update_semantic_id E st fs a =
     (let sn = val_arg a ''submodel_id_short''; pn = val_arg a ''property_name'';
          sem = val_arg a ''semantic_id''
      in case lookup_fails E st sn pn ErrorUpdatingSemanticId of
           Some r \<Rightarrow> (r, st, fs)
         | None \<Rightarrow>
             changed fs
               (update_semantic_id
                  (rejecting E (\<lambda>c. is_NewExternalReference c \<and> \<not> is_str sem))
                  st (text_of sn) (text_of pn) (text_of sem)))"

definition call_save_aas :: "env \<Rightarrow> agent \<Rightarrow> files \<Rightarrow> args \<Rightarrow> reply \<times> agent \<times> files" where
  "call_save_aas E st fs a =
     (case val_arg a ''filename'' of
        PStr f \<Rightarrow> (case save_aas E st fs f of (r, fs') \<Rightarrow> (r, st, fs'))
      | v \<Rightarrow>
          (case aas st of
             None \<Rightarrow> (NoAASToSave, st, fs)
           | Some sh \<Rightarrow> (ErrorSaving AttributeError, st, fs)))"

definition load_descriptor :: "env \<Rightarrow> agent \<Rightarrow> pyval \<Rightarrow> int \<Rightarrow> reply \<times> agent" where
  "load_descriptor E st v d =
     (case open_descriptor E d of
        Inl e \<Rightarrow> (load_error (py_str E v) e, st)
      | Inr doc \<Rightarrow> load_document (py_str E v) doc st)"

definition call_load_aas :: "env \<Rightarrow> agent \<Rightarrow> files \<Rightarrow> args \<Rightarrow> reply \<times> agent \<times> files" where
  "call_load_aas E st fs a =
     (case val_arg a ''filename'' of
        PStr f \<Rightarrow> changed fs (load_aas E st fs f)
      | PInt d \<Rightarrow> changed fs (load_descriptor E st (PInt d) d)
      | PBool b \<Rightarrow> changed fs (load_descriptor E st (PBool b) (if b then 1 else 0))
      | v \<Rightarrow> (ErrorLoading TypeError, st, fs))"

definition call_add_concept_description ::
  "env \<Rightarrow> agent \<Rightarrow> files \<Rightarrow> args \<Rightarrow> reply \<times> agent \<times> files" where
  "call_add_concept_description E st fs a =
     (let i = val_arg a ''concept_id''; s = val_arg a ''id_short'';
          pname = val_arg a ''preferred_name''; defn = val_arg a ''definition''
      in changed fs
           (add_concept_description
              (rejecting E (\<lambda>c. is_NewConcept c \<and> \<not> (is_str i \<and> is_str s) \<or>
                                 is_NewNameType c \<and> \<not> is_str pname \<or>
                                 is_NewTextType c \<and> \<not> is_str defn))
              st (text_of i) (text_of s) (opt_text pname) (opt_text defn)))"

text \<open>What the body of the handler with the given name does on a keyword dict that fits
  its parameters.\<close>

definition call_body ::
  "env \<Rightarrow> agent \<Rightarrow> files \<Rightarrow> string \<Rightarrow> args \<Rightarrow> reply \<times> agent \<times> files" where
  "call_body E st fs name a =
     (if name = ''create_aas'' then call_create_aas E st fs a
      else if name = ''add_submodel'' then call_add_submodel E st fs a
      else if name = ''add_property'' then call_add_property E st fs a
      else if name = ''update_property'' then call_update_property E st fs a
      else if name = ''get_property_value'' then call_get_property_value E st fs a
      else if name = ''save_aas'' then call_save_aas E st fs a
      else if name = ''load_aas'' then call_load_aas E st fs a
      else if name = ''get_tree_view'' then (get_tree_view st, st, fs)
      else if name = ''get_current_state'' then (get_current_state st, st, fs)
      else if name = ''add_concept_description'' then call_add_concept_description E st fs a
      else if name = ''update_semantic_id'' then call_update_semantic_id E st fs a
      else (get_digital_twin_json E st, st, fs))"

text \<open>The call \<open>func(**arguments)\<close> of the handler with the given name: it raises
  \<open>TypeError\<close> when the keywords do not fit the parameters, and otherwise returns what the
  body returns, with the document and the files the body left.\<close>

definition call_handler ::
  "env \<Rightarrow> agent \<Rightarrow> files \<Rightarrow> string \<Rightarrow> args \<Rightarrow> exn + reply \<times> agent \<times> files" where
  "call_handler E st fs name a =
     (case parameters name of
        None \<Rightarrow> Inl KeyError
      | Some (required, optional) \<Rightarrow>
          if binds required optional a then Inr (call_body E st fs name a) else Inl TypeError)"

text \<open>What a call can raise: an exception of class \<open>Exception\<close>, which \<open>except Exception\<close>
  catches, or one of the other subclasses of \<open>BaseException\<close> (\<open>KeyboardInterrupt\<close>,
  \<open>SystemExit\<close>, \<open>GeneratorExit\<close>), which it lets pass.\<close>

datatype raised = Exception exn | BaseException

text \<open>The twelve bound methods of \<open>function_map\<close>, each as what a call of it with a
  keyword dict does to the document and the files: it raises or returns a message.\<close>

definition function_map ::
  "env \<Rightarrow> string \<Rightarrow> args \<Rightarrow> agent \<times> files \<Rightarrow> (raised + reply) \<times> (agent \<times> files)" where
  "function_map E name a s =
     (case call_handler E (fst s) (snd s) name a of
        Inl e \<Rightarrow> (Inl (Exception e), s)
      | Inr w \<Rightarrow> (Inr (fst w), snd w))"

text \<open>\<open>execute_function\<close>, for any table of handlers over any state: \<open>function_map.get\<close>
  gives \<open>None\<close> for a name that is not a key, and the message for it is returned;
  otherwise the handler is called inside \<open>try\<close>, and an \<open>Exception\<close> it raises is turned
  into a message by the \<open>except\<close>. The result is the state the call left and either the
  string \<open>execute_function\<close> returns (\<open>Inr\<close>) or what it raises (\<open>Inl\<close>).\<close>

definition execute_function ::
  "(string \<Rightarrow> args \<Rightarrow> 's \<Rightarrow> (raised + reply) \<times> 's) \<Rightarrow> 's \<Rightarrow> string \<Rightarrow> args \<Rightarrow>
   (raised + reply) \<times> 's" where
  "execute_function handlers s name a =
     (if name \<notin> set function_names then (Inr (UnknownFunction name), s)
      else (case handlers name a s of
              (Inl (Exception e), s') \<Rightarrow> (Inr (ErrorExecuting name e), s')
            | (Inl BaseException, s') \<Rightarrow> (Inl BaseException, s')
            | (Inr r, s') \<Rightarrow> (Inr r, s')))"

text \<open>A sequence of dispatched calls, each on the document and the files the one before
  left; an exception that leaves \<open>execute_function\<close> ends it.\<close>

fun run :: "env \<Rightarrow> (string \<times> args) list \<Rightarrow> agent \<times> files \<Rightarrow> agent \<times> files" where
  "run E [] s = s"
| "run E (c # cs) s =
     (case execute_function (function_map E) s (fst c) (snd c) of
        (Inl x, s') \<Rightarrow> s'
      | (Inr r, s') \<Rightarrow> run E cs s')"

subsection \<open>Concrete environments\<close>

text \<open>For evaluating the handlers on concrete inputs: only whole numbers are read or
  made as floats (and printed with one decimal zero), the digit limit is the default
  of the interpreter, the libraries accept every call, and the two parameters say what
  opening a file for writing and opening a descriptor do.\<close>

definition plain_env :: "(string \<Rightarrow> exn option) \<Rightarrow> (int \<Rightarrow> exn + json) \<Rightarrow> env" where
  "plain_env w d =
     \<lparr>float_of_str = (\<lambda>s. case unsigned_of_str (strip s) of
                              Inl e \<Rightarrow> Inl e | Inr i \<Rightarrow> Inr (Finite (of_int i))),
      float_of_int = (\<lambda>i. Inr (Finite (of_int i))),
      str_of_float = (\<lambda>x. case x of Finite q \<Rightarrow> str_int \<lfloor>q\<rfloor> @ ''.0'' | PosInf \<Rightarrow> ''inf''
                                   | NegInf \<Rightarrow> ''-inf'' | NaN \<Rightarrow> ''nan''),
      max_str_digits = 4300,
      lib_check = (\<lambda>c. None),
      open_for_writing = w,
      open_descriptor = d\<rparr>"

text \<open>Every path can be written, no descriptor is open.\<close>

definition no_json :: env where
  "no_json = plain_env (\<lambda>p. None) (\<lambda>i. Inl OSError)"

text \<open>No path can be written.\<close>

definition read_only :: env where
  "read_only = plain_env (\<lambda>p. Some OSError) (\<lambda>i. Inl OSError)"

text \<open>The setter of an integer value accepts the 32-bit integers.\<close>

definition int32 :: env where
  "int32 =
     no_json\<lparr>lib_check :=
       (\<lambda>c. case c of
               SetValue t v \<Rightarrow>
                 (case v of
                    PInt i \<Rightarrow>
                      if t = XsInt \<and> (i < - 2147483648 \<or> 2147483647 < i) then Some ValueError
                      else None
                  | _ \<Rightarrow> None)
             | _ \<Rightarrow> None)\<rparr>"

subsection \<open>Sample documents\<close>

definition tech :: submodel where
  "tech = \<lparr>sm_id = ''sm/tech'', sm_id_short = ''TechData'',
           submodel_element =
             [Property \<lparr>id_short = ''Speed'', value_type = XsInt, prop_value = PInt 1500,
                        semantic_id = Some ''cd/speed''\<rparr>,
              Property \<lparr>id_short = ''Running'', value_type = XsBoolean,
                        prop_value = PBool False, semantic_id = None\<rparr>]\<rparr>"

definition tech2 :: submodel where
  "tech2 = \<lparr>sm_id = ''sm/tech2'', sm_id_short = ''TechData'',
            submodel_element =
              [Property \<lparr>id_short = ''Speed'', value_type = XsInt, prop_value = PInt 7,
                         semantic_id = None\<rparr>]\<rparr>"

definition speed_cd :: concept where
  "speed_cd = \<lparr>cd_id = ''cd/speed'', cd_id_short = ''Speed'',
               display_name = Some ''Rotation speed'', description = None\<rparr>"

definition torque_cd :: concept where
  "torque_cd = \<lparr>cd_id = ''cd/torque'', cd_id_short = ''Torque'',
                display_name = None, description = Some ''Turning force''\<rparr>"

definition motor_shell :: shell where
  "motor_shell = \<lparr>aas_id = ''aas/motor'', aas_id_short = ''motor'', aas_asset_kind = INSTANCE,
                  global_asset_id = ''asset/motor1'', submodel_refs = [''sm/tech'']\<rparr>"

definition motor :: agent where
  "motor = \<lparr>aas = Some motor_shell, submodels = [(''sm/tech'', tech)],
            concept_descriptions = [(''cd/speed'', speed_cd)]\<rparr>"

text \<open>Two submodels with one short name, and two concept descriptions.\<close>

definition twins :: agent where
  "twins = \<lparr>aas = Some motor_shell,
            submodels = [(''sm/tech'', tech), (''sm/tech2'', tech2)],
            concept_descriptions = [(''cd/speed'', speed_cd), (''cd/torque'', torque_cd)]\<rparr>"

subsection \<open>Documents whose shell, if there is one, is an instance\<close>

definition shell_instance :: "agent \<Rightarrow> bool" where
  "shell_instance st = (case aas st of None \<Rightarrow> True | Some a \<Rightarrow> aas_asset_kind a = INSTANCE)"

text \<open>A sequence of calls as the dispatcher receives them.\<close>

definition sample_calls :: "(string \<times> args) list" where
  "sample_calls =
     [(''create_aas'', [(''aas_id'', PStr ''aas/motor''), (''id_short'', PStr ''motor''),
                        (''global_asset_id'', PStr ''asset/motor1'')]),
      (''add_submodel'', [(''submodel_id'', PStr ''sm/tech''), (''id_short'', PStr ''TechData'')]),
      (''add_property'', [(''submodel_id_short'', PStr ''TechData''),
                          (''property_name'', PStr ''Speed''), (''value_type'', PStr ''int''),
                          (''value'', PStr ''1500'')])]"

text \<open>A file system without files.\<close>

definition no_files :: files where
  "no_files = Map.empty"

section \<open>Properties\<close>

subsection \<open>Lookups and dict assignment\<close>

lemma find_submodel_id_short:
  "find_submodel sms n = Some (k, sm) \<Longrightarrow> sm_id_short sm = n"
  by (induction sms n rule: find_submodel.induct) (auto split: if_splits)

lemma find_submodel_map_submodel:
  "find_submodel sms n = Some (k, sm) \<Longrightarrow> sm_id_short (f sm) = n \<Longrightarrow>
   find_submodel (map_submodel n f sms) n = Some (k, f sm)"
  by (induction sms n rule: find_submodel.induct) (auto split: if_splits)

lemma get_object_id_short:
  "get_object_by_attribute es n = Inr e \<Longrightarrow> elem_id_short e = n"
  by (induction es n rule: get_object_by_attribute.induct) (auto split: if_splits)

lemma get_object_replace_element:
  "get_object_by_attribute es n = Inr e \<Longrightarrow> elem_id_short e' = n \<Longrightarrow>
   get_object_by_attribute (replace_element n e' es) n = Inr e'"
  by (induction es n rule: get_object_by_attribute.induct) (auto split: if_splits)

lemma get_property_value_set_element:
  assumes "find_submodel (submodels st) sn = Some (k, sm)"
      and "get_object_by_attribute (submodel_element sm) pn = Inr (Property p)"
      and "id_short p' = id_short p"
  shows "get_property_value (set_element sn pn (Property p') st) sn pn =
           PropertyValue pn (prop_value p') (value_type p')"
proof -
  have n: "id_short p = pn"
    using get_object_id_short [OF assms(2)] by simp
  have s: "sm_id_short sm = sn"
    using find_submodel_id_short [OF assms(1)] .
  let ?f = "\<lambda>m. m\<lparr>submodel_element := replace_element pn (Property p') (submodel_element m)\<rparr>"
  have "find_submodel (map_submodel sn ?f (submodels st)) sn = Some (k, ?f sm)"
    using assms(1) s by (intro find_submodel_map_submodel) simp_all
  moreover have "get_object_by_attribute (submodel_element (?f sm)) pn = Inr (Property p')"
    using get_object_replace_element [OF assms(2), of "Property p'"] assms(3) n by simp
  ultimately show ?thesis
    by (simp add: get_property_value_def set_element_def element_truth_def)
qed

lemma dict_set_keys:
  "k \<in> fst ` set d \<Longrightarrow> map fst (dict_set k v d) = map fst d"
  by (induction d) force+

lemma dict_set_lookup: "map_of (dict_set k v d) = (map_of d)(k \<mapsto> v)"
  by (induction d) (auto simp: fun_eq_iff)

lemma distinct_count_one:
  "distinct (map fst d) \<Longrightarrow> k \<in> fst ` set d \<Longrightarrow> length (filter (\<lambda>kv. fst kv = k) d) = 1"
  by (induction d) (auto simp: filter_empty_conv image_iff)

subsection \<open>Creating the shell\<close>

text \<open>
  Claim C3. In every document, also one that has a shell, submodels and concept
  descriptions, \<open>create_aas\<close> leaves the dict of submodels and the dict of concept
  descriptions as they were; and when the library accepts the strings, it succeeds and
  the shell is a new one made of the three arguments, with asset kind \<open>INSTANCE\<close> and
  no submodel reference.
\<close>

theorem create_aas_keeps_submodels_and_concepts:
  "submodels (snd (create_aas E st i s g)) = submodels st \<and>
   concept_descriptions (snd (create_aas E st i s g)) = concept_descriptions st \<and>
   (lib_check E (NewAssetInformation g) = None \<and> lib_check E (NewShell i s) = None \<longrightarrow>
      create_aas E st i s g =
        (CreatedAAS s i,
         st\<lparr>aas := Some \<lparr>aas_id = i, aas_id_short = s, aas_asset_kind = INSTANCE,
                          global_asset_id = g, submodel_refs = []\<rparr>\<rparr>))"
  by (simp add: create_aas_def split: option.splits)

theorem create_aas_keeps_submodels_and_concepts_witness:
  "submodels (snd (create_aas no_json motor ''aas/pump'' ''pump'' ''asset/pump'')) =
     [(''sm/tech'', tech)] \<and>
   concept_descriptions (snd (create_aas no_json motor ''aas/pump'' ''pump'' ''asset/pump'')) =
     [(''cd/speed'', speed_cd)] \<and>
   lib_check no_json (NewAssetInformation ''asset/pump'') = None \<and>
   lib_check no_json (NewShell ''aas/pump'' ''pump'') = None \<and>
   create_aas no_json motor ''aas/pump'' ''pump'' ''asset/pump'' =
     (CreatedAAS ''pump'' ''aas/pump'',
      motor\<lparr>aas := Some \<lparr>aas_id = ''aas/pump'', aas_id_short = ''pump'',
                          aas_asset_kind = INSTANCE, global_asset_id = ''asset/pump'',
                          submodel_refs = []\<rparr>\<rparr>)"
  using create_aas_keeps_submodels_and_concepts
          [of no_json motor "''aas/pump''" "''pump''" "''asset/pump''"]
  by (simp add: no_json_def plain_env_def motor_def)

subsection \<open>Adding submodels\<close>

text \<open>
  Claim C4. In a document without shell, \<open>add_submodel\<close> with any id and short name
  returns the failure message "no AAS exists" and the document, so also its dict of
  submodels, is as before.
\<close>

theorem add_submodel_without_shell:
  "aas st = None \<Longrightarrow>
   add_submodel E st i s = (NoAASExists, st) \<and> is_failure (fst (add_submodel E st i s)) \<and>
   submodels (snd (add_submodel E st i s)) = submodels st"
  by (simp add: add_submodel_def)

theorem add_submodel_without_shell_witness:
  "aas init_agent = None \<and>
   add_submodel no_json init_agent ''sm/tech'' ''TechData'' = (NoAASExists, init_agent)"
  using add_submodel_without_shell [of init_agent no_json "''sm/tech''" "''TechData''"]
  by (simp add: init_agent_def)

text \<open>
  Claim C5. In a document with a shell and a submodel stored under id \<open>x\<close>, a second
  \<open>add_submodel\<close> with id \<open>x\<close> (accepted by the library) succeeds; the keys of the dict
  are as before, exactly one entry has key \<open>x\<close>, and it holds the new, empty submodel
  with the new short name.
\<close>

theorem add_submodel_same_id_overwrites:
  assumes "aas st = Some a"
      and "x \<in> fst ` set (submodels st)"
      and "distinct (map fst (submodels st))"
      and "lib_check E (NewSubmodel x s) = None"
      and "lib_check E (NewModelReference x) = None"
  shows "fst (add_submodel E st x s) = AddedSubmodel s \<and>
         map fst (submodels (snd (add_submodel E st x s))) = map fst (submodels st) \<and>
         length (filter (\<lambda>kv. fst kv = x) (submodels (snd (add_submodel E st x s)))) = 1 \<and>
         map_of (submodels (snd (add_submodel E st x s))) x =
           Some \<lparr>sm_id = x, sm_id_short = s, submodel_element = []\<rparr>"
proof -
  let ?new = "\<lparr>sm_id = x, sm_id_short = s, submodel_element = []\<rparr>"
  have r: "add_submodel E st x s =
             (AddedSubmodel s,
              st\<lparr>submodels := dict_set x ?new (submodels st),
                 aas := Some (a\<lparr>submodel_refs := List.insert x (submodel_refs a)\<rparr>)\<rparr>)"
    using assms(1,4,5) by (simp add: add_submodel_def Let_def)
  have k: "map fst (dict_set x ?new (submodels st)) = map fst (submodels st)"
    using assms(2) by (rule dict_set_keys)
  have "distinct (map fst (dict_set x ?new (submodels st)))"
    using assms(3) k by simp
  moreover have "x \<in> fst ` set (dict_set x ?new (submodels st))"
    using assms(2) k by (metis set_map)
  ultimately have "length (filter (\<lambda>kv. fst kv = x) (dict_set x ?new (submodels st))) = 1"
    by (rule distinct_count_one)
  then show ?thesis
    using r k by (simp add: dict_set_lookup)
qed

theorem add_submodel_same_id_overwrites_witness:
  "aas motor = Some motor_shell \<and> ''sm/tech'' \<in> fst ` set (submodels motor) \<and>
   distinct (map fst (submodels motor)) \<and>
   lib_check no_json (NewSubmodel ''sm/tech'' ''Technical'') = None \<and>
   lib_check no_json (NewModelReference ''sm/tech'') = None \<and>
   fst (add_submodel no_json motor ''sm/tech'' ''Technical'') = AddedSubmodel ''Technical'' \<and>
   length (filter (\<lambda>kv. fst kv = ''sm/tech'')
             (submodels (snd (add_submodel no_json motor ''sm/tech'' ''Technical'')))) = 1 \<and>
   map_of (submodels (snd (add_submodel no_json motor ''sm/tech'' ''Technical''))) ''sm/tech'' =
     Some \<lparr>sm_id = ''sm/tech'', sm_id_short = ''Technical'', submodel_element = []\<rparr>"
  using add_submodel_same_id_overwrites
          [of motor motor_shell "''sm/tech''" no_json "''Technical''"]
  by (simp add: motor_def no_json_def plain_env_def)

subsection \<open>Strings that are no integer\<close>

lemma dropWhile_keeps: "c \<in> set s \<Longrightarrow> \<not> P c \<Longrightarrow> c \<in> set (dropWhile P s)"
  by (induction s) auto

lemma strip_keeps: "c \<in> set s \<Longrightarrow> \<not> is_space c \<Longrightarrow> c \<in> set (strip s)"
  by (simp add: strip_def dropWhile_keeps)

lemma digits_from_other:
  "c \<in> set s \<Longrightarrow> digit_of c = None \<Longrightarrow> c \<noteq> CHR ''_'' \<Longrightarrow> digits_from acc s = None"
  by (induction acc s rule: digits_from.induct) (auto split: option.splits)

lemma unsigned_of_str_other:
  assumes "c \<in> set s" and "digit_of c = None" and "c \<noteq> CHR ''_''"
  shows "unsigned_of_str s = Inl ValueError"
proof (cases s)
  case Nil
  then show ?thesis
    by (simp add: unsigned_of_str_def)
next
  case (Cons c0 cs)
  show ?thesis
  proof (cases "digit_of c0")
    case None
    then show ?thesis
      using Cons by (simp add: unsigned_of_str_def)
  next
    case (Some d)
    then have "c \<in> set cs"
      using assms(1,2) Cons by auto
    then have "digits_from d cs = None"
      using assms(2,3) by (rule digits_from_other)
    then show ?thesis
      using Cons Some by (simp add: unsigned_of_str_def)
  qed
qed

text \<open>A string with a character that is no digit, no whitespace, no sign and no
  underscore is not the text of an integer.\<close>

lemma int_of_str_other:
  assumes "c \<in> set s" and "digit_of c = None" and "\<not> is_space c"
      and "c \<noteq> CHR ''+''" and "c \<noteq> CHR ''-''" and "c \<noteq> CHR ''_''"
  shows "int_of_str E s = Inl ValueError"
proof (cases "within_limit E s")
  case False
  then show ?thesis
    by (simp add: int_of_str_def)
next
  case True
  have m: "c \<in> set (strip s)"
    using assms(1,3) by (rule strip_keeps)
  then obtain c0 cs where s: "strip s = c0 # cs"
    by (cases "strip s") auto
  have u: "unsigned_of_str (c0 # cs) = Inl ValueError"
    using m assms(2,6) unfolding s by (rule unsigned_of_str_other)
  have u': "unsigned_of_str cs = Inl ValueError" if "c0 = CHR ''+'' \<or> c0 = CHR ''-''"
  proof -
    have "c \<in> set cs"
      using m that assms(4,5) unfolding s by auto
    then show ?thesis
      using assms(2,6) by (rule unsigned_of_str_other)
  qed
  show ?thesis
    using True s u u' by (simp add: int_of_str_def)
qed

subsection \<open>Properties: values that cannot be assigned, unknown types\<close>

lemma assign_value_cases:
  "assign_value E t v = Inl e \<longleftrightarrow>
     convert_by_type E t v = Inl e \<or>
     (\<exists>nv. convert_by_type E t v = Inr nv \<and> lib_check E (SetValue t nv) = Some e)"
  by (auto simp: assign_value_def split: sum.splits option.splits)

text \<open>
  Claim C2. Let \<open>update_property\<close> find the submodel and the property \<open>p\<close>, and let the
  assignment of the value fail: the conversion to the declared type of \<open>p\<close> raises (as
  \<open>int\<close> does on a string that is no number), or the setter of the library rejects the
  converted value for that type. Then the result is the failure message of
  \<open>update_property\<close> and the document is unchanged; \<open>get_property_value\<close> afterwards
  reports the value and the type of before. For a property of type integer this is so
  for every string with a character that is no digit, whitespace, sign or underscore.
  The conversion is the one of the declared type of the element: a value that is
  assigned is the result of that conversion, and after an update with any value the
  element has its type still.
\<close>

theorem update_property_invalid_value:
  assumes "find_submodel (submodels st) sn = Some (k, sm)"
      and "get_object_by_attribute (submodel_element sm) pn = Inr (Property p)"
      and "assign_value E (value_type p) v = Inl e"
  shows "update_property E st sn pn v = (ErrorUpdatingProperty e, st) \<and>
         is_failure (fst (update_property E st sn pn v)) \<and>
         get_property_value (snd (update_property E st sn pn v)) sn pn =
           PropertyValue pn (prop_value p) (value_type p) \<and>
         (\<forall>v' e'. convert_by_type E (value_type p) v' = Inl e' \<longrightarrow>
            update_property E st sn pn v' = (ErrorUpdatingProperty e', st)) \<and>
         (\<forall>s c. value_type p = XsInt \<and> c \<in> set s \<and> digit_of c = None \<and> \<not> is_space c \<and>
                 c \<notin> {CHR ''+'', CHR ''-'', CHR ''_''} \<longrightarrow>
            update_property E st sn pn (PStr s) = (ErrorUpdatingProperty ValueError, st)) \<and>
         (\<forall>v' nv. fst (update_property E st sn pn v') = UpdatedProperty pn (prop_value p) nv \<longrightarrow>
            convert_by_type E (value_type p) v' = Inr nv \<and>
            get_property_value (snd (update_property E st sn pn v')) sn pn =
              PropertyValue pn nv (value_type p)) \<and>
         (\<forall>v'. \<exists>x. get_property_value (snd (update_property E st sn pn v')) sn pn =
                   PropertyValue pn x (value_type p))"
proof -
  have before: "get_property_value st sn pn = PropertyValue pn (prop_value p) (value_type p)"
    using assms(1,2) by (simp add: get_property_value_def element_truth_def)
  have fails: "update_property E st sn pn v' = (ErrorUpdatingProperty e', st)"
    if "assign_value E (value_type p) v' = Inl e'" for v' e'
    using assms(1,2) that by (simp add: update_property_def element_truth_def)
  have works: "update_property E st sn pn v' =
                 (UpdatedProperty pn (prop_value p) nv,
                  set_element sn pn (Property (p\<lparr>prop_value := nv\<rparr>)) st)"
    if "assign_value E (value_type p) v' = Inr nv" for v' nv
    using assms(1,2) that by (simp add: update_property_def element_truth_def)
  have after: "get_property_value (set_element sn pn (Property (p\<lparr>prop_value := nv\<rparr>)) st) sn pn =
                 PropertyValue pn nv (value_type p)" for nv
    using get_property_value_set_element [OF assms(1,2), of "p\<lparr>prop_value := nv\<rparr>"] by simp
  have conv: "update_property E st sn pn v' = (ErrorUpdatingProperty e', st)"
    if "convert_by_type E (value_type p) v' = Inl e'" for v' e'
    using that by (intro fails) (simp add: assign_value_cases)
  have nonnum: "update_property E st sn pn (PStr s) = (ErrorUpdatingProperty ValueError, st)"
    if "value_type p = XsInt" "c \<in> set s" "digit_of c = None" "\<not> is_space c"
       "c \<notin> {CHR ''+'', CHR ''-'', CHR ''_''}" for s c
  proof -
    have "int_of_str E s = Inl ValueError"
      using that(2-5) by (intro int_of_str_other [of c]) simp_all
    then have "convert_by_type E (value_type p) (PStr s) = Inl ValueError"
      using that(1) by (simp add: convert_by_type_def)
    then show ?thesis
      by (rule conv)
  qed
  have stored: "convert_by_type E (value_type p) v' = Inr nv \<and>
                get_property_value (snd (update_property E st sn pn v')) sn pn =
                  PropertyValue pn nv (value_type p)"
    if "fst (update_property E st sn pn v') = UpdatedProperty pn (prop_value p) nv" for v' nv
  proof (cases "assign_value E (value_type p) v'")
    case (Inl e')
    then show ?thesis
      using that fails [OF Inl] by simp
  next
    case (Inr nv')
    have "nv' = nv"
      using that works [OF Inr] by simp
    moreover have "convert_by_type E (value_type p) v' = Inr nv'"
      using Inr by (auto simp: assign_value_def split: sum.splits option.splits)
    ultimately show ?thesis
      using works [OF Inr] after by simp
  qed
  have typed: "\<exists>x. get_property_value (snd (update_property E st sn pn v')) sn pn =
                    PropertyValue pn x (value_type p)" for v'
  proof (cases "assign_value E (value_type p) v'")
    case (Inl e')
    then show ?thesis
      using fails [OF Inl] before by simp
  next
    case (Inr nv)
    then show ?thesis
      using works [OF Inr] after by simp
  qed
  show ?thesis
    using fails [OF assms(3)] before conv nonnum stored typed by (intro conjI allI impI) auto
qed

text \<open>The document \<open>motor\<close>, whose property \<open>Speed\<close> is an integer: a string that is no
  number, and, where the setter takes 32-bit integers, an integer out of that range;
  a string with a no-break space before the digit is a number.\<close>

theorem update_property_invalid_value_witness:
  "find_submodel (submodels motor) ''TechData'' = Some (''sm/tech'', tech) \<and>
   get_object_by_attribute (submodel_element tech) ''Speed'' =
     Inr (Property \<lparr>id_short = ''Speed'', value_type = XsInt, prop_value = PInt 1500,
                     semantic_id = Some ''cd/speed''\<rparr>) \<and>
   assign_value no_json XsInt (PStr ''fast'') = Inl ValueError \<and>
   update_property no_json motor ''TechData'' ''Speed'' (PStr ''fast'') =
     (ErrorUpdatingProperty ValueError, motor) \<and>
   get_property_value (snd (update_property no_json motor ''TechData'' ''Speed'' (PStr ''fast'')))
       ''TechData'' ''Speed'' = PropertyValue ''Speed'' (PInt 1500) XsInt \<and>
   assign_value int32 XsInt (PInt 3000000000) = Inl ValueError \<and>
   update_property int32 motor ''TechData'' ''Speed'' (PInt 3000000000) =
     (ErrorUpdatingProperty ValueError, motor) \<and>
   fst (update_property no_json motor ''TechData'' ''Speed'' (PStr [CHR 0xA0, CHR ''7''])) =
     UpdatedProperty ''Speed'' (PInt 1500) (PInt 7) \<and>
   get_property_value
       (snd (update_property no_json motor ''TechData'' ''Speed'' (PStr [CHR 0xA0, CHR ''7''])))
       ''TechData'' ''Speed'' = PropertyValue ''Speed'' (PInt 7) XsInt"
proof -
  let ?p = "\<lparr>id_short = ''Speed'', value_type = XsInt, prop_value = PInt 1500,
             semantic_id = Some ''cd/speed''\<rparr>"
  have f: "find_submodel (submodels motor) ''TechData'' = Some (''sm/tech'', tech)"
    by (simp add: motor_def tech_def)
  have g: "get_object_by_attribute (submodel_element tech) ''Speed'' = Inr (Property ?p)"
    by (simp add: tech_def)
  have c: "assign_value no_json (value_type ?p) (PStr ''fast'') = Inl ValueError"
    by (simp add: assign_value_def convert_by_type_def int_of_str_def within_limit_def
          count_digits_def strip_def is_space_def unsigned_of_str_def digit_of_def
          no_json_def plain_env_def)
  have d: "assign_value int32 (value_type ?p) (PInt 3000000000) = Inl ValueError"
    by (simp add: assign_value_def convert_by_type_def int32_def no_json_def plain_env_def)
  have u: "fst (update_property no_json motor ''TechData'' ''Speed'' (PStr [CHR 0xA0, CHR ''7''])) =
             UpdatedProperty ''Speed'' (prop_value ?p) (PInt 7)"
    using f g
    by (simp add: update_property_def element_truth_def assign_value_def convert_by_type_def
          int_of_str_def within_limit_def count_digits_def strip_def is_space_def
          unsigned_of_str_def digit_of_def no_json_def plain_env_def)
  note w = update_property_invalid_value [OF f g c]
  note w' = update_property_invalid_value [OF f g d]
  have r1: "update_property no_json motor ''TechData'' ''Speed'' (PStr ''fast'') =
              (ErrorUpdatingProperty ValueError, motor)"
    using w by (rule conjunct1)
  have "get_property_value
          (snd (update_property no_json motor ''TechData'' ''Speed'' (PStr ''fast'')))
          ''TechData'' ''Speed'' = PropertyValue ''Speed'' (prop_value ?p) (value_type ?p)"
    using w by blast
  then have r2: "get_property_value
              (snd (update_property no_json motor ''TechData'' ''Speed'' (PStr ''fast'')))
              ''TechData'' ''Speed'' = PropertyValue ''Speed'' (PInt 1500) XsInt"
    by simp
  have r3: "update_property int32 motor ''TechData'' ''Speed'' (PInt 3000000000) =
              (ErrorUpdatingProperty ValueError, motor)"
    using w' by (rule conjunct1)
  have "get_property_value
       (snd (update_property no_json motor ''TechData'' ''Speed'' (PStr [CHR 0xA0, CHR ''7''])))
       ''TechData'' ''Speed'' = PropertyValue ''Speed'' (PInt 7) (value_type ?p)"
    using w u by blast
  then have r4: "get_property_value
       (snd (update_property no_json motor ''TechData'' ''Speed'' (PStr [CHR 0xA0, CHR ''7''])))
       ''TechData'' ''Speed'' = PropertyValue ''Speed'' (PInt 7) XsInt"
    by simp
  have c': "assign_value no_json XsInt (PStr ''fast'') = Inl ValueError"
    using c by simp
  have d': "assign_value int32 XsInt (PInt 3000000000) = Inl ValueError"
    using d by simp
  have u': "fst (update_property no_json motor ''TechData'' ''Speed'' (PStr [CHR 0xA0, CHR ''7''])) =
             UpdatedProperty ''Speed'' (PInt 1500) (PInt 7)"
    using u by simp
  show ?thesis
    by (intro conjI f g c' r1 r2 d' r3 u' r4)
qed

text \<open>
  Claim C7. When \<open>add_property\<close> finds the submodel and the lowercased type tag is none
  of the four keys of the type table, the result is the failure message "invalid value
  type" and the document is unchanged: the submodel found by the short name is the same,
  with the same elements.
\<close>

theorem add_property_unknown_type:
  assumes "find_submodel (submodels st) sn = Some (k, sm)"
      and "lower vt \<notin> set [''string'', ''int'', ''float'', ''boolean'']"
  shows "add_property E st sn pn vt v sem = (InvalidValueType vt, st) \<and>
         is_failure (fst (add_property E st sn pn vt v sem)) \<and>
         find_submodel (submodels (snd (add_property E st sn pn vt v sem))) sn = Some (k, sm)"
proof -
  have "type_map (lower vt) = None"
    using assms(2) by (simp add: type_map_def)
  then have "add_property E st sn pn vt v sem = (InvalidValueType vt, st)"
    using assms(1) by (simp add: add_property_def)
  then show ?thesis
    using assms(1) by simp
qed

theorem add_property_unknown_type_witness:
  "find_submodel (submodels motor) ''TechData'' = Some (''sm/tech'', tech) \<and>
   lower ''Double'' \<notin> set [''string'', ''int'', ''float'', ''boolean''] \<and>
   add_property no_json motor ''TechData'' ''Torque'' ''Double'' (PInt 3) None =
     (InvalidValueType ''Double'', motor) \<and>
   find_submodel
     (submodels (snd (add_property no_json motor ''TechData'' ''Torque'' ''Double'' (PInt 3) None)))
     ''TechData'' = Some (''sm/tech'', tech)"
proof -
  have f: "find_submodel (submodels motor) ''TechData'' = Some (''sm/tech'', tech)"
    by (simp add: motor_def tech_def)
  have t: "lower ''Double'' \<notin> set [''string'', ''int'', ''float'', ''boolean'']"
    by (simp add: lower_def lower_char_def)
  show ?thesis
    using add_property_unknown_type [OF f t] f t by simp
qed

subsection \<open>The decimal text of an integer\<close>

lemma digit_chr_mem: "d < 10 \<Longrightarrow> digit_chr d \<in> set ''0123456789''"
  unfolding digit_chr_def by (rule nth_mem) simp

lemma str_nat_digits: "set (str_nat n) \<subseteq> set ''0123456789''"
proof (induction n rule: str_nat.induct)
  case (1 n)
  show ?case
  proof (cases "n < 10")
    case True
    then show ?thesis
      using digit_chr_mem [of n] by (subst str_nat.simps) simp
  next
    case False
    have "n mod 10 < 10" by simp
    then have "digit_chr (n mod 10) \<in> set ''0123456789''"
      by (rule digit_chr_mem)
    then show ?thesis
      using False "1" by (subst str_nat.simps) simp
  qed
qed

lemma str_nat_nonempty: "str_nat n \<noteq> []"
  by (subst str_nat.simps) simp

lemma digit_chr_one: "d < 10 \<Longrightarrow> digit_chr d = CHR ''1'' \<longleftrightarrow> d = 1"
proof -
  assume "d < 10"
  then have "d = 0 \<or> d = 1 \<or> d = 2 \<or> d = 3 \<or> d = 4 \<or> d = 5 \<or> d = 6 \<or> d = 7 \<or> d = 8 \<or> d = 9"
    by arith
  then show ?thesis
    by (elim disjE) (simp_all add: digit_chr_def)
qed

lemma str_nat_one: "str_nat n = ''1'' \<longleftrightarrow> n = 1"
proof (cases "n < 10")
  case True
  then show ?thesis
    using digit_chr_one [of n] by (subst str_nat.simps) simp
next
  case False
  obtain c cs where "str_nat (n div 10) = c # cs"
    using str_nat_nonempty [of "n div 10"] by (cases "str_nat (n div 10)") auto
  then have "length (str_nat n) \<ge> 2"
    using False by (subst str_nat.simps) simp
  then show ?thesis
    using False by auto
qed

lemma lower_digit: "c \<in> set ''0123456789'' \<Longrightarrow> lower_char c = c"
proof -
  assume "c \<in> set ''0123456789''"
  then have "c = CHR ''0'' \<or> c = CHR ''1'' \<or> c = CHR ''2'' \<or> c = CHR ''3'' \<or> c = CHR ''4'' \<or>
             c = CHR ''5'' \<or> c = CHR ''6'' \<or> c = CHR ''7'' \<or> c = CHR ''8'' \<or> c = CHR ''9''"
    by simp
  then show ?thesis
    by (elim disjE) (simp_all add: lower_char_def)
qed

lemma lower_digits: "set s \<subseteq> set ''0123456789'' \<Longrightarrow> lower s = s"
  unfolding lower_def by (rule map_idI) (use lower_digit in blast)

lemma truthy_digits:
  assumes "set s \<subseteq> set ''0123456789''"
  shows "lower s \<in> set truthy \<longleftrightarrow> s = ''1''"
proof -
  have "s \<noteq> ''true''" "s \<noteq> ''t''" "s \<noteq> ''yes''"
    using assms by auto
  then show ?thesis
    using lower_digits [OF assms] by (simp add: truthy_def)
qed

lemma lower_minus: "lower (CHR ''-'' # s) \<notin> set truthy"
  by (simp add: lower_def lower_char_def truthy_def)

lemma truthy_int: "lower (str_int i) \<in> set truthy \<longleftrightarrow> i = 1"
proof (cases "i < 0")
  case True
  then show ?thesis
    using lower_minus [of "str_nat (nat (- i))"] by (simp add: str_int_def)
next
  case False
  then have "lower (str_int i) \<in> set truthy \<longleftrightarrow> nat i = 1"
    using truthy_digits [OF str_nat_digits, of "nat i"] str_nat_one [of "nat i"]
    by (simp add: str_int_def)
  then show ?thesis
    using False by auto
qed

subsection \<open>Boolean coercion\<close>

text \<open>
  Claim C6. Boolean coercion, as \<open>add_property\<close> (by the tag) and \<open>update_property\<close>
  (by the declared type) perform it: a boolean is passed through; for any other value
  the result tells whether the lowercased \<open>str\<close> of it is one of \<open>true\<close>, \<open>t\<close>, \<open>yes\<close>,
  \<open>1\<close>, so a string is true exactly if its lowercased form is one of these, an integer
  exactly if it is 1, and \<open>None\<close> is false; the conversion never raises.
\<close>

theorem boolean_coercion:
  "coerce_boolean E (PBool b) = b \<and>
   ((\<forall>b. v \<noteq> PBool b) \<longrightarrow>
      coerce_boolean E v = (lower (py_str E v) \<in> {''true'', ''t'', ''yes'', ''1''})) \<and>
   coerce_boolean E (PStr s) = (lower s \<in> {''true'', ''t'', ''yes'', ''1''}) \<and>
   coerce_boolean E (PInt i) = (i = 1) \<and>
   coerce_boolean E PNone = False \<and>
   convert_by_tag E ''boolean'' v = Inr (PBool (coerce_boolean E v)) \<and>
   convert_by_type E XsBoolean v = Inr (PBool (coerce_boolean E v))"
proof -
  have "coerce_boolean E v = (lower (py_str E v) \<in> {''true'', ''t'', ''yes'', ''1''})"
    if "\<forall>b. v \<noteq> PBool b"
  proof (cases v)
    case (PBool x)
    with that show ?thesis by blast
  qed (simp_all add: truthy_def)
  moreover have "coerce_boolean E (PStr s) = (lower s \<in> {''true'', ''t'', ''yes'', ''1''})"
    by (simp add: truthy_def)
  moreover have "coerce_boolean E (PInt i) = (i = 1)"
    using truthy_int [of i] by simp
  moreover have "coerce_boolean E PNone = False"
    by (simp add: truthy_def lower_def lower_char_def)
  moreover have "convert_by_tag E ''boolean'' v = Inr (PBool (coerce_boolean E v))"
    by (simp add: convert_by_tag_def)
  moreover have "convert_by_type E XsBoolean v = Inr (PBool (coerce_boolean E v))"
    by (simp add: convert_by_type_def)
  ultimately show ?thesis
    by simp
qed

theorem boolean_coercion_witness:
  "coerce_boolean no_json (PBool True) = True \<and>
   coerce_boolean no_json (PStr ''maybe'') =
     (lower (py_str no_json (PStr ''maybe'')) \<in> {''true'', ''t'', ''yes'', ''1''}) \<and>
   coerce_boolean no_json (PStr ''maybe'') = False \<and>
   coerce_boolean no_json (PStr ''YES'') = True \<and>
   convert_by_type no_json XsBoolean (PStr ''maybe'') = Inr (PBool False)"
  using boolean_coercion [of no_json True "PStr ''maybe''" "''YES''" 1]
  by (simp add: lower_def lower_char_def truthy_def)

subsection \<open>Submodels that share a short name\<close>

lemma find_submodel_first:
  "\<forall>kv\<in>set pre. sm_id_short (snd kv) \<noteq> n \<Longrightarrow> sm_id_short sm = n \<Longrightarrow>
   find_submodel (pre @ (k, sm) # post) n = Some (k, sm)"
  by (induction pre) auto

lemma map_submodel_first:
  "\<forall>kv\<in>set pre. sm_id_short (snd kv) \<noteq> n \<Longrightarrow> sm_id_short sm = n \<Longrightarrow>
   map_submodel n f (pre @ (k, sm) # post) = pre @ (k, f sm) # post"
  by (induction pre) auto

lemma add_property_first:
  assumes "submodels st = pre @ (k, sm) # post"
      and "\<forall>kv\<in>set pre. sm_id_short (snd kv) \<noteq> n"
      and "sm_id_short sm = n"
  shows "fst (add_property E st n pn vt v sem) =
           fst (add_property E (st\<lparr>submodels := [(k, sm)]\<rparr>) n pn vt v sem) \<and>
         submodels (snd (add_property E st n pn vt v sem)) =
           pre @ submodels (snd (add_property E (st\<lparr>submodels := [(k, sm)]\<rparr>) n pn vt v sem)) @ post"
proof -
  have f: "find_submodel (submodels st) n = Some (k, sm)"
    using assms by (simp add: find_submodel_first)
  have m: "map_submodel n g (submodels st) = pre @ (k, g sm) # post" for g
    using assms by (simp add: map_submodel_first)
  show ?thesis
    using assms(1,3) f m
    by (simp add: add_property_def split: option.split sum.split)
qed

lemma update_property_first:
  assumes "submodels st = pre @ (k, sm) # post"
      and "\<forall>kv\<in>set pre. sm_id_short (snd kv) \<noteq> n"
      and "sm_id_short sm = n"
  shows "fst (update_property E st n pn v) =
           fst (update_property E (st\<lparr>submodels := [(k, sm)]\<rparr>) n pn v) \<and>
         submodels (snd (update_property E st n pn v)) =
           pre @ submodels (snd (update_property E (st\<lparr>submodels := [(k, sm)]\<rparr>) n pn v)) @ post"
proof -
  have f: "find_submodel (submodels st) n = Some (k, sm)"
    using assms by (simp add: find_submodel_first)
  have m: "map_submodel n g (submodels st) = pre @ (k, g sm) # post" for g
    using assms by (simp add: map_submodel_first)
  show ?thesis
    using assms(1,3) f m
    by (simp add: update_property_def set_element_def element_truth_def
          split: option.split sum.split element.split)
qed

lemma update_semantic_id_first:
  assumes "submodels st = pre @ (k, sm) # post"
      and "\<forall>kv\<in>set pre. sm_id_short (snd kv) \<noteq> n"
      and "sm_id_short sm = n"
  shows "fst (update_semantic_id E st n pn r) =
           fst (update_semantic_id E (st\<lparr>submodels := [(k, sm)]\<rparr>) n pn r) \<and>
         submodels (snd (update_semantic_id E st n pn r)) =
           pre @ submodels (snd (update_semantic_id E (st\<lparr>submodels := [(k, sm)]\<rparr>) n pn r)) @ post"
proof -
  have f: "find_submodel (submodels st) n = Some (k, sm)"
    using assms by (simp add: find_submodel_first)
  have m: "map_submodel n g (submodels st) = pre @ (k, g sm) # post" for g
    using assms by (simp add: map_submodel_first)
  show ?thesis
    using assms(1,3) f m
    by (simp add: update_semantic_id_def move_element_def element_truth_def
          split: option.split sum.split element.split)
qed

lemma get_property_value_first:
  assumes "submodels st = pre @ (k, sm) # post"
      and "\<forall>kv\<in>set pre. sm_id_short (snd kv) \<noteq> n"
      and "sm_id_short sm = n"
  shows "get_property_value st n pn = get_property_value (st\<lparr>submodels := [(k, sm)]\<rparr>) n pn"
proof -
  have f: "find_submodel (submodels st) n = Some (k, sm)"
    using assms by (simp add: find_submodel_first)
  show ?thesis
    using assms(3) f by (simp add: get_property_value_def)
qed

text \<open>What the four handlers do when they succeed: the change is made to the first
  submodel with the short name, where it stands.\<close>

lemma add_property_appends:
  assumes "submodels st = pre @ (k, sm) # post"
      and "\<forall>kv\<in>set pre. sm_id_short (snd kv) \<noteq> n"
      and "sm_id_short sm = n"
      and "type_map (lower vt) = Some t"
      and "(if v = PNone then Inr PNone else convert_by_tag E (lower vt) v) = Inr cv"
      and "lib_check E (NewProperty pn t cv) = None"
      and "sem = None \<or> lib_check E (NewExternalReference (the sem)) = None"
      and "lib_check E (AddElement (submodel_element sm) pn) = None"
  shows "add_property E st n pn vt v sem =
           (AddedProperty pn vt n cv (nonempty sem),
            st\<lparr>submodels :=
                 pre @ (k, sm\<lparr>submodel_element := submodel_element sm @
                                 [Property \<lparr>id_short = pn, value_type = t, prop_value = cv,
                                            semantic_id = nonempty sem\<rparr>]\<rparr>) # post\<rparr>)"
proof -
  have f: "find_submodel (submodels st) n = Some (k, sm)"
    using assms(1-3) by (simp add: find_submodel_first)
  have m: "map_submodel n g (submodels st) = pre @ (k, g sm) # post" for g
    using assms(1-3) by (simp add: map_submodel_first)
  have r: "(case nonempty sem of None \<Rightarrow> None | Some r \<Rightarrow> lib_check E (NewExternalReference r)) = None"
    using assms(7) by (cases sem) auto
  show ?thesis
    unfolding add_property_def using f m r assms(4,5,6,8) by simp
qed

lemma update_property_replaces:
  assumes "submodels st = pre @ (k, sm) # post"
      and "\<forall>kv\<in>set pre. sm_id_short (snd kv) \<noteq> n"
      and "sm_id_short sm = n"
      and "get_object_by_attribute (submodel_element sm) pn = Inr (Property p)"
      and "assign_value E (value_type p) v = Inr nv"
  shows "update_property E st n pn v =
           (UpdatedProperty pn (prop_value p) nv,
            st\<lparr>submodels :=
                 pre @ (k, sm\<lparr>submodel_element :=
                                 replace_element pn (Property (p\<lparr>prop_value := nv\<rparr>))
                                   (submodel_element sm)\<rparr>) # post\<rparr>)"
proof -
  have f: "find_submodel (submodels st) n = Some (k, sm)"
    using assms(1-3) by (simp add: find_submodel_first)
  have m: "map_submodel n g (submodels st) = pre @ (k, g sm) # post" for g
    using assms(1-3) by (simp add: map_submodel_first)
  show ?thesis
    unfolding update_property_def set_element_def using f m assms(4,5)
    by (simp add: element_truth_def)
qed

lemma update_semantic_id_moves:
  assumes "submodels st = pre @ (k, sm) # post"
      and "\<forall>kv\<in>set pre. sm_id_short (snd kv) \<noteq> n"
      and "sm_id_short sm = n"
      and "get_object_by_attribute (submodel_element sm) pn = Inr (Property p)"
      and "lib_check E (NewExternalReference r) = None"
      and "lib_check E (SetSemanticId (submodel_element sm) pn r) = None"
  shows "update_semantic_id E st n pn r =
           (UpdatedSemanticId pn r,
            st\<lparr>submodels :=
                 pre @ (k, sm\<lparr>submodel_element :=
                                 remove_element pn (submodel_element sm) @
                                   [Property (p\<lparr>semantic_id := Some r\<rparr>)]\<rparr>) # post\<rparr>)"
proof -
  have f: "find_submodel (submodels st) n = Some (k, sm)"
    using assms(1-3) by (simp add: find_submodel_first)
  have m: "map_submodel n g (submodels st) = pre @ (k, g sm) # post" for g
    using assms(1-3) by (simp add: map_submodel_first)
  show ?thesis
    unfolding update_semantic_id_def move_element_def using f m assms(4,5,6)
    by (simp add: element_truth_def)
qed

lemma get_property_value_reads:
  assumes "submodels st = pre @ (k, sm) # post"
      and "\<forall>kv\<in>set pre. sm_id_short (snd kv) \<noteq> n"
      and "sm_id_short sm = n"
      and "get_object_by_attribute (submodel_element sm) pn = Inr (Property p)"
  shows "get_property_value st n pn = PropertyValue pn (prop_value p) (value_type p)"
proof -
  have f: "find_submodel (submodels st) n = Some (k, sm)"
    using assms(1-3) by (simp add: find_submodel_first)
  show ?thesis
    using f assms(4) by (simp add: get_property_value_def element_truth_def)
qed

lemma dict_set_new: "k \<notin> fst ` set d \<Longrightarrow> dict_set k v d = d @ [(k, v)]"
  by (induction d) auto

lemma add_submodel_new_id:
  assumes "aas st = Some a"
      and "i \<notin> fst ` set (submodels st)"
      and "lib_check E (NewSubmodel i n) = None"
      and "lib_check E (NewModelReference i) = None"
  shows "fst (add_submodel E st i n) = AddedSubmodel n \<and>
         submodels (snd (add_submodel E st i n)) =
           submodels st @ [(i, \<lparr>sm_id = i, sm_id_short = n, submodel_element = []\<rparr>)]"
  using assms by (simp add: add_submodel_def Let_def dict_set_new)

text \<open>
  Claim C9. Let the dict of submodels be \<open>pre @ (k, sm) # post\<close>, where \<open>sm\<close> has the
  short name \<open>n\<close> and no submodel of \<open>pre\<close> has it: \<open>sm\<close> is the first with that name,
  whatever \<open>post\<close> holds, also further submodels with the name \<open>n\<close>. Then the lookup by
  \<open>n\<close> finds \<open>sm\<close>, and
  \<^item> \<open>add_property\<close>, when the type is known, the value converts and the library accepts
    the property, appends the new property to the elements of \<open>sm\<close>;
  \<^item> \<open>update_property\<close>, when \<open>sm\<close> has the property and the value can be assigned,
    replaces the value of the property of \<open>sm\<close> and reports the old value of that one;
  \<^item> \<open>get_property_value\<close> reports value and type of the property of \<open>sm\<close>;
  \<^item> \<open>update_semantic_id\<close>, when \<open>sm\<close> has the property and the library accepts the
    reference, gives it to the property of \<open>sm\<close>, which comes to stand last in \<open>sm\<close>;
  \<^item> in every case, failure too, the four answer as they do on the document that holds
    \<open>sm\<close> alone, and the entries of \<open>pre\<close> and \<open>post\<close> stay as they are.
  A further submodel with the short name \<open>n\<close> and a new id is accepted by \<open>add_submodel\<close>
  and put last, and the lookup finds \<open>sm\<close> as before.
\<close>

theorem first_submodel_with_short_name:
  assumes "submodels st = pre @ (k, sm) # post"
      and "\<forall>kv\<in>set pre. sm_id_short (snd kv) \<noteq> n"
      and "sm_id_short sm = n"
  shows "find_submodel (submodels st) n = Some (k, sm) \<and>
         (type_map (lower vt) = Some t \<and>
          (if v = PNone then Inr PNone else convert_by_tag E (lower vt) v) = Inr cv \<and>
          lib_check E (NewProperty pn t cv) = None \<and>
          (sem = None \<or> lib_check E (NewExternalReference (the sem)) = None) \<and>
          lib_check E (AddElement (submodel_element sm) pn) = None \<longrightarrow>
            add_property E st n pn vt v sem =
              (AddedProperty pn vt n cv (nonempty sem),
               st\<lparr>submodels :=
                    pre @ (k, sm\<lparr>submodel_element := submodel_element sm @
                                    [Property \<lparr>id_short = pn, value_type = t, prop_value = cv,
                                               semantic_id = nonempty sem\<rparr>]\<rparr>) # post\<rparr>)) \<and>
         (get_object_by_attribute (submodel_element sm) pn = Inr (Property p) \<longrightarrow>
            get_property_value st n pn = PropertyValue pn (prop_value p) (value_type p) \<and>
            (assign_value E (value_type p) v = Inr nv \<longrightarrow>
               update_property E st n pn v =
                 (UpdatedProperty pn (prop_value p) nv,
                  st\<lparr>submodels :=
                       pre @ (k, sm\<lparr>submodel_element :=
                                       replace_element pn (Property (p\<lparr>prop_value := nv\<rparr>))
                                         (submodel_element sm)\<rparr>) # post\<rparr>)) \<and>
            (lib_check E (NewExternalReference r) = None \<and>
             lib_check E (SetSemanticId (submodel_element sm) pn r) = None \<longrightarrow>
               update_semantic_id E st n pn r =
                 (UpdatedSemanticId pn r,
                  st\<lparr>submodels :=
                       pre @ (k, sm\<lparr>submodel_element :=
                                       remove_element pn (submodel_element sm) @
                                         [Property (p\<lparr>semantic_id := Some r\<rparr>)]\<rparr>) # post\<rparr>))) \<and>
         (fst (add_property E st n pn vt v sem) =
            fst (add_property E (st\<lparr>submodels := [(k, sm)]\<rparr>) n pn vt v sem) \<and>
          submodels (snd (add_property E st n pn vt v sem)) =
            pre @ submodels (snd (add_property E (st\<lparr>submodels := [(k, sm)]\<rparr>) n pn vt v sem))
              @ post) \<and>
         (fst (update_property E st n pn v) =
            fst (update_property E (st\<lparr>submodels := [(k, sm)]\<rparr>) n pn v) \<and>
          submodels (snd (update_property E st n pn v)) =
            pre @ submodels (snd (update_property E (st\<lparr>submodels := [(k, sm)]\<rparr>) n pn v))
              @ post) \<and>
         get_property_value st n pn = get_property_value (st\<lparr>submodels := [(k, sm)]\<rparr>) n pn \<and>
         (fst (update_semantic_id E st n pn r) =
            fst (update_semantic_id E (st\<lparr>submodels := [(k, sm)]\<rparr>) n pn r) \<and>
          submodels (snd (update_semantic_id E st n pn r)) =
            pre @ submodels (snd (update_semantic_id E (st\<lparr>submodels := [(k, sm)]\<rparr>) n pn r))
              @ post) \<and>
         (aas st = Some a \<and> i \<notin> fst ` set (submodels st) \<and>
          lib_check E (NewSubmodel i n) = None \<and> lib_check E (NewModelReference i) = None \<longrightarrow>
            fst (add_submodel E st i n) = AddedSubmodel n \<and>
            submodels (snd (add_submodel E st i n)) =
              submodels st @ [(i, \<lparr>sm_id = i, sm_id_short = n, submodel_element = []\<rparr>)] \<and>
            find_submodel (submodels (snd (add_submodel E st i n))) n = Some (k, sm))"
proof -
  have f: "find_submodel (submodels st) n = Some (k, sm)"
    using assms by (simp add: find_submodel_first)
  have l: "find_submodel (submodels st @ [(i, \<lparr>sm_id = i, sm_id_short = n, submodel_element = []\<rparr>)]) n =
          Some (k, sm)"
    using assms find_submodel_first [of pre n sm k "post @ [(i, \<lparr>sm_id = i, sm_id_short = n, submodel_element = []\<rparr>)]"]
    by simp
  have s: "aas st = Some a \<and> i \<notin> fst ` set (submodels st) \<and>
          lib_check E (NewSubmodel i n) = None \<and> lib_check E (NewModelReference i) = None \<longrightarrow>
            fst (add_submodel E st i n) = AddedSubmodel n \<and>
            submodels (snd (add_submodel E st i n)) =
              submodels st @ [(i, \<lparr>sm_id = i, sm_id_short = n, submodel_element = []\<rparr>)] \<and>
            find_submodel (submodels (snd (add_submodel E st i n))) n = Some (k, sm)"
    using l add_submodel_new_id [of st a i E n] by simp
  have ap: "type_map (lower vt) = Some t \<and>
          (if v = PNone then Inr PNone else convert_by_tag E (lower vt) v) = Inr cv \<and>
          lib_check E (NewProperty pn t cv) = None \<and>
          (sem = None \<or> lib_check E (NewExternalReference (the sem)) = None) \<and>
          lib_check E (AddElement (submodel_element sm) pn) = None \<longrightarrow>
            add_property E st n pn vt v sem =
              (AddedProperty pn vt n cv (nonempty sem),
               st\<lparr>submodels :=
                    pre @ (k, sm\<lparr>submodel_element := submodel_element sm @
                                    [Property \<lparr>id_short = pn, value_type = t, prop_value = cv,
                                               semantic_id = nonempty sem\<rparr>]\<rparr>) # post\<rparr>)"
    using add_property_appends [OF assms, of vt t v E cv pn sem] by blast
  have el: "get_object_by_attribute (submodel_element sm) pn = Inr (Property p) \<longrightarrow>
            get_property_value st n pn = PropertyValue pn (prop_value p) (value_type p) \<and>
            (assign_value E (value_type p) v = Inr nv \<longrightarrow>
               update_property E st n pn v =
                 (UpdatedProperty pn (prop_value p) nv,
                  st\<lparr>submodels :=
                       pre @ (k, sm\<lparr>submodel_element :=
                                       replace_element pn (Property (p\<lparr>prop_value := nv\<rparr>))
                                         (submodel_element sm)\<rparr>) # post\<rparr>)) \<and>
            (lib_check E (NewExternalReference r) = None \<and>
             lib_check E (SetSemanticId (submodel_element sm) pn r) = None \<longrightarrow>
               update_semantic_id E st n pn r =
                 (UpdatedSemanticId pn r,
                  st\<lparr>submodels :=
                       pre @ (k, sm\<lparr>submodel_element :=
                                       remove_element pn (submodel_element sm) @
                                         [Property (p\<lparr>semantic_id := Some r\<rparr>)]\<rparr>) # post\<rparr>))"
    using get_property_value_reads [OF assms, of pn p]
      update_property_replaces [OF assms, of pn p E v nv]
      update_semantic_id_moves [OF assms, of pn p E r]
    by blast
  show ?thesis
    by (intro conjI f ap el s add_property_first [OF assms] update_property_first [OF assms]
          get_property_value_first [OF assms] update_semantic_id_first [OF assms])
qed

text \<open>The document \<open>twins\<close>: two submodels named \<open>TechData\<close>, each with a property \<open>Speed\<close>.
  Each of the four handlers works on the first of them and leaves the second.\<close>

theorem first_submodel_with_short_name_witness:
  "submodels twins = [] @ (''sm/tech'', tech) # [(''sm/tech2'', tech2)] \<and>
   sm_id_short tech = ''TechData'' \<and> sm_id_short tech2 = ''TechData'' \<and>
   find_submodel (submodels twins) ''TechData'' = Some (''sm/tech'', tech) \<and>
   get_property_value twins ''TechData'' ''Speed'' = PropertyValue ''Speed'' (PInt 1500) XsInt \<and>
   add_property no_json twins ''TechData'' ''Torque'' ''int'' (PStr ''12'') None =
     (AddedProperty ''Torque'' ''int'' ''TechData'' (PInt 12) None,
      twins\<lparr>submodels :=
        [(''sm/tech'',
          tech\<lparr>submodel_element :=
                 [Property \<lparr>id_short = ''Speed'', value_type = XsInt, prop_value = PInt 1500,
                            semantic_id = Some ''cd/speed''\<rparr>,
                  Property \<lparr>id_short = ''Running'', value_type = XsBoolean,
                            prop_value = PBool False, semantic_id = None\<rparr>,
                  Property \<lparr>id_short = ''Torque'', value_type = XsInt, prop_value = PInt 12,
                            semantic_id = None\<rparr>]\<rparr>),
         (''sm/tech2'', tech2)]\<rparr>) \<and>
   update_property no_json twins ''TechData'' ''Speed'' (PInt 9) =
     (UpdatedProperty ''Speed'' (PInt 1500) (PInt 9),
      twins\<lparr>submodels :=
        [(''sm/tech'',
          tech\<lparr>submodel_element :=
                 [Property \<lparr>id_short = ''Speed'', value_type = XsInt, prop_value = PInt 9,
                            semantic_id = Some ''cd/speed''\<rparr>,
                  Property \<lparr>id_short = ''Running'', value_type = XsBoolean,
                            prop_value = PBool False, semantic_id = None\<rparr>]\<rparr>),
         (''sm/tech2'', tech2)]\<rparr>) \<and>
   update_semantic_id no_json twins ''TechData'' ''Speed'' ''cd/rpm'' =
     (UpdatedSemanticId ''Speed'' ''cd/rpm'',
      twins\<lparr>submodels :=
        [(''sm/tech'',
          tech\<lparr>submodel_element :=
                 [Property \<lparr>id_short = ''Running'', value_type = XsBoolean,
                            prop_value = PBool False, semantic_id = None\<rparr>,
                  Property \<lparr>id_short = ''Speed'', value_type = XsInt, prop_value = PInt 1500,
                            semantic_id = Some ''cd/rpm''\<rparr>]\<rparr>),
         (''sm/tech2'', tech2)]\<rparr>)"
proof -
  let ?p = "\<lparr>id_short = ''Speed'', value_type = XsInt, prop_value = PInt 1500,
             semantic_id = Some ''cd/speed''\<rparr>"
  let ?q = "\<lparr>id_short = ''Running'', value_type = XsBoolean, prop_value = PBool False,
             semantic_id = None\<rparr>"
  have h1: "submodels twins = [] @ (''sm/tech'', tech) # [(''sm/tech2'', tech2)]"
    by (simp add: twins_def)
  have h2: "\<forall>kv\<in>set []. sm_id_short (snd kv) \<noteq> ''TechData''"
    by simp
  have h3: "sm_id_short tech = ''TechData''"
    by (simp add: tech_def)
  have h3': "sm_id_short tech2 = ''TechData''"
    by (simp add: tech2_def)
  have es: "submodel_element tech = [Property ?p, Property ?q]"
    by (simp add: tech_def)
  have t: "type_map (lower ''int'') = Some XsInt"
    by (simp add: type_map_def lower_def lower_char_def)
  have c: "(if PStr ''12'' = PNone then Inr PNone
            else convert_by_tag no_json (lower ''int'') (PStr ''12'')) = Inr (PInt 12)"
    by (simp add: convert_by_tag_def lower_def lower_char_def int_of_str_def within_limit_def
          count_digits_def strip_def is_space_def unsigned_of_str_def digit_of_def
          no_json_def plain_env_def)
  have lib: "lib_check no_json x = None" for x
    by (simp add: no_json_def plain_env_def)
  have g: "get_object_by_attribute (submodel_element tech) ''Speed'' = Inr (Property ?p)"
    by (simp add: tech_def)
  have a: "assign_value no_json (value_type ?p) (PInt 9) = Inr (PInt 9)"
    by (simp add: assign_value_def convert_by_type_def lib)
  note w = first_submodel_with_short_name
             [where E = no_json and pn = "''Speed''" and v = "PInt 9" and nv = "PInt 9" and
                p = ?p and r = "''cd/rpm''", OF h1 h2 h3]
  note w' = first_submodel_with_short_name
             [where E = no_json and pn = "''Torque''" and vt = "''int''" and t = XsInt and
                v = "PStr ''12''" and cv = "PInt 12" and sem = None, OF h1 h2 h3]
  have f: "find_submodel (submodels twins) ''TechData'' = Some (''sm/tech'', tech)"
    using w by (rule conjunct1)
  have r0: "get_property_value twins ''TechData'' ''Speed'' =
              PropertyValue ''Speed'' (prop_value ?p) (value_type ?p)"
    using w g by blast
  have r1: "add_property no_json twins ''TechData'' ''Torque'' ''int'' (PStr ''12'') None =
     (AddedProperty ''Torque'' ''int'' ''TechData'' (PInt 12) (nonempty None),
      twins\<lparr>submodels :=
        [] @ (''sm/tech'',
          tech\<lparr>submodel_element := submodel_element tech @
                 [Property \<lparr>id_short = ''Torque'', value_type = XsInt, prop_value = PInt 12,
                            semantic_id = nonempty None\<rparr>]\<rparr>) # [(''sm/tech2'', tech2)]\<rparr>)"
    using w' t c lib by blast
  have r2: "update_property no_json twins ''TechData'' ''Speed'' (PInt 9) =
     (UpdatedProperty ''Speed'' (prop_value ?p) (PInt 9),
      twins\<lparr>submodels :=
        [] @ (''sm/tech'',
          tech\<lparr>submodel_element :=
                 replace_element ''Speed'' (Property (?p\<lparr>prop_value := PInt 9\<rparr>))
                   (submodel_element tech)\<rparr>) # [(''sm/tech2'', tech2)]\<rparr>)"
    using w g a by blast
  have r3: "update_semantic_id no_json twins ''TechData'' ''Speed'' ''cd/rpm'' =
     (UpdatedSemanticId ''Speed'' ''cd/rpm'',
      twins\<lparr>submodels :=
        [] @ (''sm/tech'',
          tech\<lparr>submodel_element :=
                 remove_element ''Speed'' (submodel_element tech) @
                   [Property (?p\<lparr>semantic_id := Some ''cd/rpm''\<rparr>)]\<rparr>) # [(''sm/tech2'', tech2)]\<rparr>)"
    using w g lib by blast
  show ?thesis
    using h1 h3 h3' f r0 r1 r2 r3 by (simp add: es)
qed

subsection \<open>The asset kind of the shell\<close>

lemma create_aas_instance:
  "shell_instance st \<Longrightarrow> shell_instance (snd (create_aas E st i s g))"
  by (simp add: create_aas_def shell_instance_def split: option.splits)

lemma add_submodel_instance:
  "shell_instance st \<Longrightarrow> shell_instance (snd (add_submodel E st i s))"
  by (auto simp: add_submodel_def shell_instance_def Let_def split: option.splits)

lemma add_property_aas: "aas (snd (add_property E st sn pn vt v sem)) = aas st"
  by (simp add: add_property_def split: option.splits sum.splits prod.splits)

lemma update_property_aas: "aas (snd (update_property E st sn pn v)) = aas st"
  by (simp add: update_property_def set_element_def
        split: option.splits sum.splits prod.splits element.splits)

lemma update_semantic_id_aas: "aas (snd (update_semantic_id E st sn pn r)) = aas st"
  by (simp add: update_semantic_id_def move_element_def
        split: option.splits sum.splits prod.splits element.splits)

lemma add_concept_description_aas:
  "aas (snd (add_concept_description E st i s pname defn)) = aas st"
  by (simp add: add_concept_description_def split: option.splits)

lemma changed_instance:
  "changed fs x = (r, st', fs') \<Longrightarrow> shell_instance (snd x) \<Longrightarrow> shell_instance st'"
  by (auto simp: changed_def)

lemma call_create_aas_instance:
  "call_create_aas E st fs a = (r, st', fs') \<Longrightarrow> shell_instance st \<Longrightarrow> shell_instance st'"
  unfolding call_create_aas_def Let_def
  by (auto intro: changed_instance create_aas_instance)

lemma call_add_submodel_instance:
  "call_add_submodel E st fs a = (r, st', fs') \<Longrightarrow> shell_instance st \<Longrightarrow> shell_instance st'"
  unfolding call_add_submodel_def Let_def
  by (auto intro: changed_instance add_submodel_instance)

lemma call_add_property_instance:
  "call_add_property E st fs a = (r, st', fs') \<Longrightarrow> shell_instance st \<Longrightarrow> shell_instance st'"
  unfolding call_add_property_def Let_def
  by (auto simp: changed_def shell_instance_def add_property_aas split: if_splits option.splits)

lemma call_update_property_instance:
  "call_update_property E st fs a = (r, st', fs') \<Longrightarrow> shell_instance st \<Longrightarrow>
   shell_instance st'"
  unfolding call_update_property_def Let_def
  by (auto simp: changed_def shell_instance_def update_property_aas split: if_splits option.splits)

lemma call_get_property_value_instance:
  "call_get_property_value E st fs a = (r, st', fs') \<Longrightarrow> shell_instance st \<Longrightarrow>
   shell_instance st'"
  unfolding call_get_property_value_def Let_def
  by (auto split: if_splits option.splits)

lemma call_update_semantic_id_instance:
  "call_update_semantic_id E st fs a = (r, st', fs') \<Longrightarrow> shell_instance st \<Longrightarrow>
   shell_instance st'"
  unfolding call_update_semantic_id_def Let_def
  by (auto simp: changed_def shell_instance_def update_semantic_id_aas
        split: if_splits option.splits)

lemma call_save_aas_instance:
  "call_save_aas E st fs a = (r, st', fs') \<Longrightarrow> shell_instance st \<Longrightarrow> shell_instance st'"
  unfolding call_save_aas_def
  by (auto split: if_splits option.splits pyval.splits prod.splits)

lemma call_add_concept_description_instance:
  "call_add_concept_description E st fs a = (r, st', fs') \<Longrightarrow> shell_instance st \<Longrightarrow>
   shell_instance st'"
  unfolding call_add_concept_description_def Let_def
  by (auto simp: changed_def shell_instance_def add_concept_description_aas)

lemma call_body_instance:
  assumes "call_body E st fs name a = (r, st', fs')"
      and "name \<noteq> ''load_aas''"
      and "shell_instance st"
  shows "shell_instance st'"
  using assms unfolding call_body_def
  by (auto split: if_splits
        dest: call_create_aas_instance call_add_submodel_instance call_add_property_instance
          call_update_property_instance call_get_property_value_instance
          call_update_semantic_id_instance call_save_aas_instance
          call_add_concept_description_instance)

lemma call_handler_instance:
  assumes "call_handler E st fs name a = Inr (r, st', fs')"
      and "name \<noteq> ''load_aas''"
      and "shell_instance st"
  shows "shell_instance st'"
proof -
  have "call_body E st fs name a = (r, st', fs')"
    using assms(1) by (auto simp: call_handler_def split: option.splits prod.splits if_splits)
  then show ?thesis
    using assms(2,3) by (rule call_body_instance)
qed

lemma function_map_instance:
  assumes "name \<noteq> ''load_aas''" and "shell_instance (fst s)"
  shows "shell_instance (fst (snd (function_map E name a s)))"
proof (cases "call_handler E (fst s) (snd s) name a")
  case (Inl e)
  then show ?thesis
    using assms(2) by (simp add: function_map_def)
next
  case (Inr x)
  obtain r st' fs' where x: "x = (r, st', fs')"
    by (cases x) auto
  have "shell_instance st'"
    using call_handler_instance [OF Inr [unfolded x] assms] .
  then show ?thesis
    using Inr x by (simp add: function_map_def)
qed

lemma execute_function_instance:
  assumes "name \<noteq> ''load_aas''" and "shell_instance (fst s)"
  shows "shell_instance (fst (snd (execute_function (function_map E) s name a)))"
  using function_map_instance [OF assms, of E a] assms(2)
  by (auto simp: execute_function_def split: prod.splits sum.splits raised.splits)

lemma run_instance:
  "shell_instance (fst s) \<Longrightarrow> \<forall>c\<in>set cs. fst c \<noteq> ''load_aas'' \<Longrightarrow>
   shell_instance (fst (run E cs s))"
proof (induction cs arbitrary: s)
  case Nil
  then show ?case by simp
next
  case (Cons c cs)
  let ?x = "execute_function (function_map E) s (fst c) (snd c)"
  have i: "shell_instance (fst (snd ?x))"
    using Cons.prems by (intro execute_function_instance) simp_all
  then have "shell_instance (fst (run E cs (snd ?x)))"
    using Cons.prems(2) by (intro Cons.IH) simp_all
  then show ?case
    using i by (cases ?x) (auto split: sum.splits)
qed

text \<open>
  Claim C10. \<open>create_aas\<close> has no parameter for the asset kind: a shell it creates has
  asset kind \<open>INSTANCE\<close>. In a sequence of dispatched calls, none of them \<open>load_aas\<close>,
  that starts from the empty document, and from any document whose shell is an instance
  or absent, every document reached has a shell that is an instance, or none: none has
  asset kind \<open>TYPE\<close>.
\<close>

theorem shell_is_always_an_instance:
  "(fst (create_aas E st i s g) = CreatedAAS s i \<longrightarrow>
      (\<exists>sh. aas (snd (create_aas E st i s g)) = Some sh \<and> aas_asset_kind sh = INSTANCE)) \<and>
   ((\<forall>c\<in>set cs. fst c \<noteq> ''load_aas'') \<longrightarrow>
      (\<forall>sh. aas (fst (run E cs (init_agent, fs))) = Some sh \<longrightarrow> aas_asset_kind sh = INSTANCE)) \<and>
   (shell_instance st \<and> (\<forall>c\<in>set cs. fst c \<noteq> ''load_aas'') \<longrightarrow>
      shell_instance (fst (run E cs (st, fs))))"
proof -
  have a: "fst (create_aas E st i s g) = CreatedAAS s i \<longrightarrow>
      (\<exists>sh. aas (snd (create_aas E st i s g)) = Some sh \<and> aas_asset_kind sh = INSTANCE)"
    by (simp add: create_aas_def split: option.splits)
  have b: "shell_instance (fst (run E cs (st0, fs)))"
    if "shell_instance st0" "\<forall>c\<in>set cs. fst c \<noteq> ''load_aas''" for st0
    using run_instance [of "(st0, fs)" cs E] that by simp
  have "shell_instance init_agent"
    by (simp add: shell_instance_def init_agent_def)
  then have "\<forall>sh. aas (fst (run E cs (init_agent, fs))) = Some sh \<longrightarrow> aas_asset_kind sh = INSTANCE"
    if "\<forall>c\<in>set cs. fst c \<noteq> ''load_aas''"
    using b [of init_agent] that by (simp add: shell_instance_def split: option.splits)
  then show ?thesis
    using a b by blast
qed

theorem shell_is_always_an_instance_witness:
  "fst (create_aas no_json init_agent ''aas/motor'' ''motor'' ''asset/motor1'') =
     CreatedAAS ''motor'' ''aas/motor'' \<and>
   shell_instance init_agent \<and>
   ''load_aas'' \<notin> fst ` set sample_calls \<and>
   aas (fst (run no_json sample_calls (init_agent, Map.empty))) =
     Some \<lparr>aas_id = ''aas/motor'', aas_id_short = ''motor'', aas_asset_kind = INSTANCE,
           global_asset_id = ''asset/motor1'', submodel_refs = [''sm/tech'']\<rparr> \<and>
   shell_instance (fst (run no_json sample_calls (init_agent, Map.empty)))"
proof -
  have c: "fst (create_aas no_json init_agent ''aas/motor'' ''motor'' ''asset/motor1'') =
             CreatedAAS ''motor'' ''aas/motor''"
    by (simp add: create_aas_def no_json_def plain_env_def)
  have i: "shell_instance init_agent"
    by (simp add: shell_instance_def init_agent_def)
  have n: "\<forall>c\<in>set sample_calls. fst c \<noteq> ''load_aas''"
    by (simp add: sample_calls_def)
  have n': "''load_aas'' \<notin> fst ` set sample_calls"
    by (simp add: sample_calls_def)
  have r: "aas (fst (run no_json sample_calls (init_agent, Map.empty))) =
     Some \<lparr>aas_id = ''aas/motor'', aas_id_short = ''motor'', aas_asset_kind = INSTANCE,
           global_asset_id = ''asset/motor1'', submodel_refs = [''sm/tech'']\<rparr>"
    by code_simp
  show ?thesis
    using shell_is_always_an_instance
            [of no_json init_agent "''aas/motor''" "''motor''" "''asset/motor1''" sample_calls Map.empty]
      c i n n' r
    by simp
qed

subsection \<open>The dispatcher returns a message\<close>

lemma parameters_function_names:
  "name \<in> set function_names \<Longrightarrow> \<exists>req opt. parameters name = Some (req, opt)"
  by (auto simp: function_names_def parameters_def)

lemma function_map_returns:
  assumes "parameters name = Some (req, opt)"
  shows "function_map E name a s =
           (if binds req opt a
            then (Inr (fst (call_body E (fst s) (snd s) name a)),
                  snd (call_body E (fst s) (snd s) name a))
            else (Inl (Exception TypeError), s))"
  using assms by (simp add: function_map_def call_handler_def)

text \<open>
  Claim C8. \<open>execute_function\<close> over any table of handlers, any state, name and keyword
  dict: a name outside the twelve of the catalog gives the message "unknown function"
  and calls nothing; for a name of the catalog, an exception of class \<open>Exception\<close> that
  the handler raises gives the message "error executing", with the state as the handler
  left it, and a message the handler returns is returned. So \<open>execute_function\<close> returns
  a message unless the handler raises what \<open>except Exception\<close> does not catch. With the
  twelve handlers of the agent it returns a message in every case: a handler raises (a
  \<open>TypeError\<close>) exactly when the keywords do not fit its parameters, which gives "error
  executing" with nothing changed, and otherwise its body returns a message, its own
  error message if a library call raised, as \<open>create_aas\<close> does when the library rejects
  the asset id. The two messages of the dispatcher are failure messages.
\<close>

theorem execute_function_never_raises:
  "(name \<notin> set function_names \<longrightarrow>
      execute_function handlers s name a = (Inr (UnknownFunction name), s)) \<and>
   (name \<in> set function_names \<longrightarrow>
      (\<forall>e s'. handlers name a s = (Inl (Exception e), s') \<longrightarrow>
         execute_function handlers s name a = (Inr (ErrorExecuting name e), s')) \<and>
      (\<forall>r s'. handlers name a s = (Inr r, s') \<longrightarrow>
         execute_function handlers s name a = (Inr r, s'))) \<and>
   (fst (handlers name a s) \<noteq> Inl BaseException \<longrightarrow>
      (\<exists>r. fst (execute_function handlers s name a) = Inr r)) \<and>
   (\<exists>r. fst (execute_function (function_map E) w name a) = Inr r) \<and>
   (name \<in> set function_names \<longrightarrow>
      (\<exists>req opt. parameters name = Some (req, opt) \<and>
         (\<not> binds req opt a \<longrightarrow>
            execute_function (function_map E) w name a =
              (Inr (ErrorExecuting name TypeError), w)) \<and>
         (binds req opt a \<longrightarrow>
            execute_function (function_map E) w name a =
              (Inr (fst (call_body E (fst w) (snd w) name a)),
               snd (call_body E (fst w) (snd w) name a))))) \<and>
   is_failure (UnknownFunction name) \<and> is_failure (ErrorExecuting name e') \<and>
   (lib_check E (NewAssetInformation g) = Some e' \<longrightarrow>
      create_aas E st i sn g = (ErrorCreatingAAS e', st))"
proof -
  have unknown: "name \<notin> set function_names \<longrightarrow>
      execute_function handlers s name a = (Inr (UnknownFunction name), s)"
    by (simp add: execute_function_def)
  have known: "name \<in> set function_names \<longrightarrow>
      (\<forall>e s'. handlers name a s = (Inl (Exception e), s') \<longrightarrow>
         execute_function handlers s name a = (Inr (ErrorExecuting name e), s')) \<and>
      (\<forall>r s'. handlers name a s = (Inr r, s') \<longrightarrow>
         execute_function handlers s name a = (Inr r, s'))"
    by (simp add: execute_function_def)
  have caught: "fst (handlers name a s) \<noteq> Inl BaseException \<longrightarrow>
      (\<exists>r. fst (execute_function handlers s name a) = Inr r)"
    by (auto simp: execute_function_def split: prod.splits sum.splits raised.splits)
  have table: "\<exists>req opt. parameters name = Some (req, opt) \<and>
         (\<not> binds req opt a \<longrightarrow>
            execute_function (function_map E) w name a =
              (Inr (ErrorExecuting name TypeError), w)) \<and>
         (binds req opt a \<longrightarrow>
            execute_function (function_map E) w name a =
              (Inr (fst (call_body E (fst w) (snd w) name a)),
               snd (call_body E (fst w) (snd w) name a)))"
    if n: "name \<in> set function_names"
  proof -
    obtain req opt where p: "parameters name = Some (req, opt)"
      using parameters_function_names [OF n] by blast
    show ?thesis
      using n p function_map_returns [OF p, of E a w]
      by (auto simp: execute_function_def)
  qed
  have total: "\<exists>r. fst (execute_function (function_map E) w name a) = Inr r"
  proof (cases "name \<in> set function_names")
    case True
    then show ?thesis
      using table [OF True] by (cases "parameters name") auto
  next
    case False
    then show ?thesis
      by (simp add: execute_function_def)
  qed
  have own: "lib_check E (NewAssetInformation g) = Some e' \<longrightarrow>
      create_aas E st i sn g = (ErrorCreatingAAS e', st)"
    by (simp add: create_aas_def)
  show ?thesis
    using table by (intro conjI unknown known caught total own) simp_all
qed

text \<open>A name that is no key; a keyword dict without a required parameter; a handler of
  another table that raises after it changed the state; and two dicts with a number
  where the handler expects a string: \<open>preferred_name\<close> 0 is skipped and the concept
  description is stored, the identifier 5 is rejected by the library and \<open>create_aas\<close>
  returns its own error message.\<close>

theorem execute_function_never_raises_witness:
  "''delete_aas'' \<notin> set function_names \<and>
   execute_function (function_map no_json) (motor, no_files) ''delete_aas'' [] =
     (Inr (UnknownFunction ''delete_aas''), (motor, no_files)) \<and>
   ''add_submodel'' \<in> set function_names \<and>
   parameters ''add_submodel'' = Some ([''submodel_id'', ''id_short''], []) \<and>
   \<not> binds [''submodel_id'', ''id_short''] [] [(''submodel_id'', PStr ''sm/x'')] \<and>
   execute_function (function_map no_json) (motor, no_files) ''add_submodel''
       [(''submodel_id'', PStr ''sm/x'')] =
     (Inr (ErrorExecuting ''add_submodel'' TypeError), (motor, no_files)) \<and>
   execute_function (\<lambda>name a n. (Inl (Exception KeyError), Suc n)) 0 ''get_tree_view'' [] =
     (Inr (ErrorExecuting ''get_tree_view'' KeyError), 1) \<and>
   execute_function (function_map no_json) (motor, no_files) ''add_concept_description''
       [(''concept_id'', PStr ''cd/x''), (''id_short'', PStr ''X''), (''preferred_name'', PInt 0)] =
     (Inr (AddedConcept ''X'' None None),
      (motor\<lparr>concept_descriptions :=
          [(''cd/speed'', speed_cd),
           (''cd/x'', \<lparr>cd_id = ''cd/x'', cd_id_short = ''X'', display_name = None,
                       description = None\<rparr>)]\<rparr>,
       no_files)) \<and>
   execute_function (function_map no_json) (motor, no_files) ''create_aas''
       [(''aas_id'', PInt 5), (''id_short'', PStr ''pump''),
        (''global_asset_id'', PStr ''asset/pump'')] =
     (Inr (ErrorCreatingAAS TypeError), (motor, no_files))"
proof -
  let ?s = "(motor, no_files)"
  let ?a1 = "[(''submodel_id'', PStr ''sm/x'')]"
  let ?a2 = "[(''concept_id'', PStr ''cd/x''), (''id_short'', PStr ''X''),
              (''preferred_name'', PInt 0)]"
  let ?a3 = "[(''aas_id'', PInt 5), (''id_short'', PStr ''pump''),
              (''global_asset_id'', PStr ''asset/pump'')]"
  have u: "''delete_aas'' \<notin> set function_names"
    by (simp add: function_names_def)
  have k: "''add_submodel'' \<in> set function_names"
          "''get_tree_view'' \<in> set function_names"
          "''add_concept_description'' \<in> set function_names"
          "''create_aas'' \<in> set function_names"
    by (simp_all add: function_names_def)
  have p1: "parameters ''add_submodel'' = Some ([''submodel_id'', ''id_short''], [])"
    by (simp add: parameters_def)
  have p2: "parameters ''add_concept_description'' =
              Some ([''concept_id'', ''id_short''], [''preferred_name'', ''definition''])"
    by (simp add: parameters_def)
  have p3: "parameters ''create_aas'' = Some ([''aas_id'', ''id_short'', ''global_asset_id''], [])"
    by (simp add: parameters_def)
  have b1: "\<not> binds [''submodel_id'', ''id_short''] [] ?a1"
    by (simp add: binds_def)
  have b2: "binds [''concept_id'', ''id_short''] [''preferred_name'', ''definition''] ?a2"
    by (simp add: binds_def)
  have b3: "binds [''aas_id'', ''id_short'', ''global_asset_id''] [] ?a3"
    by (simp add: binds_def)
  have c2: "call_body no_json motor no_files ''add_concept_description'' ?a2 =
              (AddedConcept ''X'' None None,
               motor\<lparr>concept_descriptions :=
                  [(''cd/speed'', speed_cd),
                   (''cd/x'', \<lparr>cd_id = ''cd/x'', cd_id_short = ''X'', display_name = None,
                               description = None\<rparr>)]\<rparr>,
               no_files)"
    by (simp add: call_body_def call_add_concept_description_def val_arg_def opt_text_def
          rejecting_def add_concept_description_def changed_def no_json_def plain_env_def
          motor_def)
  have c3: "call_body no_json motor no_files ''create_aas'' ?a3 =
              (ErrorCreatingAAS TypeError, motor, no_files)"
    by (simp add: call_body_def call_create_aas_def val_arg_def rejecting_def create_aas_def
          changed_def no_json_def plain_env_def)
  have r0: "execute_function (function_map no_json) ?s ''delete_aas'' [] =
              (Inr (UnknownFunction ''delete_aas''), ?s)"
    using execute_function_never_raises
            [where name = "''delete_aas''" and handlers = "function_map no_json" and s = ?s and
               a = "[]" and E = no_json and w = ?s and e' = TypeError and g = "''g''" and st = motor and i = "''i''" and sn = "''s''"] u
    by blast
  have r1: "execute_function (function_map no_json) ?s ''add_submodel'' ?a1 =
              (Inr (ErrorExecuting ''add_submodel'' TypeError), ?s)"
    using execute_function_never_raises
            [where name = "''add_submodel''" and E = no_json and w = ?s and a = ?a1 and
               handlers = "function_map no_json" and s = ?s and e' = TypeError and g = "''g''" and st = motor and i = "''i''" and sn = "''s''"] k(1) p1 b1
    by auto
  have r2: "execute_function (\<lambda>name a n. (Inl (Exception KeyError), Suc n)) 0 ''get_tree_view'' [] =
              (Inr (ErrorExecuting ''get_tree_view'' KeyError), 1)"
    using execute_function_never_raises
            [where name = "''get_tree_view''" and
               handlers = "\<lambda>name a n. (Inl (Exception KeyError), Suc n)" and s = 0 and
               a = "[]" and E = no_json and w = ?s and e' = TypeError and g = "''g''" and st = motor and i = "''i''" and sn = "''s''"]
          k(2)
    by simp
  have "execute_function (function_map no_json) ?s ''add_concept_description'' ?a2 =
          (Inr (fst (call_body no_json motor no_files ''add_concept_description'' ?a2)),
           snd (call_body no_json motor no_files ''add_concept_description'' ?a2))"
    using execute_function_never_raises
            [where name = "''add_concept_description''" and E = no_json and w = ?s and a = ?a2 and
               handlers = "function_map no_json" and s = ?s and e' = TypeError and g = "''g''" and st = motor and i = "''i''" and sn = "''s''"]
          k(3) p2 b2
    by auto
  then have r3: "execute_function (function_map no_json) ?s ''add_concept_description'' ?a2 =
     (Inr (AddedConcept ''X'' None None),
      (motor\<lparr>concept_descriptions :=
          [(''cd/speed'', speed_cd),
           (''cd/x'', \<lparr>cd_id = ''cd/x'', cd_id_short = ''X'', display_name = None,
                       description = None\<rparr>)]\<rparr>,
       no_files))"
    by (simp only: c2 fst_conv snd_conv)
  have "execute_function (function_map no_json) ?s ''create_aas'' ?a3 =
          (Inr (fst (call_body no_json motor no_files ''create_aas'' ?a3)),
           snd (call_body no_json motor no_files ''create_aas'' ?a3))"
    using execute_function_never_raises
            [where name = "''create_aas''" and E = no_json and w = ?s and a = ?a3 and
               handlers = "function_map no_json" and s = ?s and e' = TypeError and g = "''g''" and st = motor and i = "''i''" and sn = "''s''"]
          k(4) p3 b3
    by auto
  then have r4: "execute_function (function_map no_json) ?s ''create_aas'' ?a3 =
     (Inr (ErrorCreatingAAS TypeError), (motor, no_files))"
    by (simp only: c3 fst_conv snd_conv)
  show ?thesis
    by (intro conjI u k(1) p1 b1 r0 r1 r2 r3 r4)
qed

end
